theory Spec2Isabelle
  imports Main "HOL-Library.Sublist" "HOL-Library.Char_ord" "HOL-Library.List_Lexorder"
begin

section \<open>Python values and exceptions\<close>

text \<open>
  Every exception class the module can raise is a subclass of \<open>Exception\<close>, so an
  \<open>except Exception\<close> clause catches each constructor below. \<open>External\<close> stands for
  whatever an external library (json, keras, PIL, pyntcloud) raises on a file it cannot
  read or decode.
\<close>

datatype error =
    AssertionError string
  | NameError string
  | UnboundLocalError string
  | KeyError string
  | TypeError
  | IndexError
  | Exception string
  | External string

text \<open>
  The scalar found under \<open>doc[field]["value"]\<close> of a JSON document. Strings and integers
  are modelled; a document is the map from a field name to that scalar, and a field that is
  absent raises \<open>KeyError\<close>.
\<close>

datatype json_value = is_JStr: JStr (the_str: string) | is_JNum: JNum (the_num: int)

type_synonym json_doc = "string \<rightharpoonup> json_value"

definition field_value :: "json_doc \<Rightarrow> string \<Rightarrow> error + json_value" where
  "field_value doc field = (case doc field of None \<Rightarrow> Inl (KeyError field) | Some v \<Rightarrow> Inr v)"

text \<open>Python's \<open>s in t\<close> on two strings: \<open>s\<close> occurs in \<open>t\<close> as a contiguous substring.\<close>

fun str_in :: "string \<Rightarrow> string \<Rightarrow> bool" where
  "str_in s [] = (s = [])"
| "str_in s (c # cs) = (prefix s (c # cs) \<or> str_in s cs)"

text \<open>\<open>v in path\<close> where \<open>v\<close> came out of a JSON document: a non-string left operand raises.\<close>

definition value_in :: "json_value \<Rightarrow> string \<Rightarrow> error + bool" where
  "value_in v path = (case v of JStr s \<Rightarrow> Inr (str_in s path) | JNum n \<Rightarrow> Inl TypeError)"

text \<open>A list comprehension \<open>[x for x in xs if cond(x)]\<close> whose condition may raise.\<close>

fun comprehension :: "('a \<Rightarrow> error + bool) \<Rightarrow> 'a list \<Rightarrow> error + 'a list" where
  "comprehension cond [] = Inr []"
| "comprehension cond (x # xs) =
     (case cond x of
        Inl e \<Rightarrow> Inl e
      | Inr b \<Rightarrow>
          (case comprehension cond xs of
             Inl e \<Rightarrow> Inl e
           | Inr ys \<Rightarrow> Inr (if b then x # ys else ys)))"

section \<open>Arrays\<close>

text \<open>
  A numpy array: its shape and its elements in row-major order. The element values are
  carried as integers standing for their bit patterns; no claim computes with them.
\<close>

datatype ndarray = NDArray (shape: "nat list") (elements: "int list")

text \<open>
  \<open>PyntCloud.from_file(path).points.values\<close>: the two-dimensional matrix of a data frame,
  one row per point.
\<close>

datatype points_values = PointsValues (n_columns: nat) (point_rows: "int list list")

text \<open>\<open>values[:k]\<close>: a negative bound counts from the end.\<close>

definition slice_upto :: "int \<Rightarrow> points_values \<Rightarrow> points_values" where
  "slice_upto k pv =
     (let n = length (point_rows pv);
          m = (if k < 0 then nat (max 0 (int n + k)) else min (nat k) n)
      in PointsValues (n_columns pv) (take m (point_rows pv)))"

definition np_array :: "points_values \<Rightarrow> ndarray" where
  "np_array pv = NDArray [length (point_rows pv), n_columns pv] (concat (point_rows pv))"

section \<open>Rendering values in messages\<close>

fun str_nat :: "nat \<Rightarrow> string" where
  "str_nat n =
     (if n < 10 then [''0123456789'' ! n]
      else str_nat (n div 10) @ [''0123456789'' ! (n mod 10)])"

fun join_comma :: "string list \<Rightarrow> string" where
  "join_comma [] = []"
| "join_comma [x] = x"
| "join_comma (x # y # ys) = x @ '', '' @ join_comma (y # ys)"

text \<open>\<open>str\<close> of a tuple of non-negative integers.\<close>

definition str_tuple :: "nat list \<Rightarrow> string" where
  "str_tuple ns =
     (case ns of
        [n] \<Rightarrow> ''('' @ str_nat n @ '',)''
      | _ \<Rightarrow> ''('' @ join_comma (map str_nat ns) @ '')'')"

section \<open>The outside world\<close>

text \<open>
  The file system and the decoding libraries, as the module sees them.
  \<^item> \<open>path_exists\<close> is \<open>os.path.exists\<close>, \<open>glob\<close> is \<open>glob2.glob\<close> on a pattern,
    \<open>load_json\<close> is \<open>json.load(open(path))\<close>;
  \<^item> \<open>decode_image path target\<close> is \<open>load_img(path, target_size=target)\<close> followed by
    \<open>rotate(-90, expand=True)\<close> and \<open>np.array\<close>;
  \<^item> \<open>decode_voxelgrid path target\<close> is \<open>PyntCloud.from_file\<close>, \<open>add_structure("voxelgrid",
    n_x, n_y, n_z)\<close> and \<open>get_feature_vector(mode="density")\<close>;
  \<^item> \<open>read_points path\<close> is \<open>PyntCloud.from_file(path).points.values\<close>.
\<close>

record world =
  path_exists :: "string \<Rightarrow> bool"
  glob :: "string \<Rightarrow> string list"
  load_json :: "string \<Rightarrow> error + json_doc"
  decode_image :: "string \<Rightarrow> nat list \<Rightarrow> error + ndarray"
  decode_voxelgrid :: "string \<Rightarrow> nat list \<Rightarrow> error + ndarray"
  read_points :: "string \<Rightarrow> error + points_values"

section \<open>The index\<close>

type_synonym entry = "json_value list \<times> string list \<times> string list"

record data_generator =
  dataset_path :: string
  input_type :: string
  output_targets :: "string list"
  image_target_shape :: "nat list"
  voxelgrid_target_shape :: "nat list"
  pointcloud_target_size :: int
  image_cache :: "string \<rightharpoonup> ndarray"
  voxelgrid_cache :: "string \<rightharpoonup> ndarray"
  pointcloud_cache :: "string \<rightharpoonup> ndarray"
  jpg_paths :: "string list"
  pcd_paths :: "string list"
  json_paths_personal :: "string list"
  json_paths_measures :: "string list"
  qrcodes :: "json_value list"
  qrcodes_dictionary :: "(json_value \<times> entry) list"

subsection \<open>Subject extraction\<close>

definition extract_qrcode :: "world \<Rightarrow> data_generator \<Rightarrow> json_doc \<Rightarrow> error + json_value" where
  "extract_qrcode w self json_data_measure =
     (case field_value json_data_measure ''personId'' of
        Inl e \<Rightarrow> Inl e
      | Inr person_id \<Rightarrow>
          (case comprehension (value_in person_id) (json_paths_personal self) of
             Inl e \<Rightarrow> Inl e
           | Inr json_path_personal \<Rightarrow>
               if length json_path_personal \<noteq> 1 then Inl (AssertionError [])
               else
                 (case load_json w (json_path_personal ! 0) of
                    Inl e \<Rightarrow> Inl e
                  | Inr json_data_personal \<Rightarrow> field_value json_data_personal ''qrcode'')))"

subsection \<open>Names the module binds\<close>

text \<open>
  The names bound at module level: the imports, the class and the three test functions.
  A name used in a method body that is neither a local of that method nor one of these
  (nor a builtin) raises \<open>NameError\<close> when it is evaluated. An attribute of \<open>self\<close>
  is not a name in scope.
\<close>

datatype py_global = Module | Class | Function

definition module_globals :: "string \<rightharpoonup> py_global" where
  "module_globals =
     [''os'' \<mapsto> Module, ''np'' \<mapsto> Module, ''glob2'' \<mapsto> Module, ''json'' \<mapsto> Module,
      ''random'' \<mapsto> Module, ''image_preprocessing'' \<mapsto> Module,
      ''progressbar'' \<mapsto> Module, ''PyntCloud'' \<mapsto> Class, ''DataGenerator'' \<mapsto> Class,
      ''test_generator'' \<mapsto> Function, ''test_dataset'' \<mapsto> Function,
      ''test_parameters'' \<mapsto> Function]"

definition global_name :: "string \<Rightarrow> error + py_global" where
  "global_name n = (case module_globals n of None \<Rightarrow> Inl (NameError n) | Some v \<Rightarrow> Inr v)"

text \<open>
  \<open>raise Exception("Unknown input_type: " + input_type)\<close>: the operand \<open>input_type\<close>
  is looked up as a name; were it bound to a module, class or function, the concatenation
  with a string would raise \<open>TypeError\<close>.
\<close>

definition raise_unknown_input_type :: error where
  "raise_unknown_input_type =
     (case global_name ''input_type'' of Inl e \<Rightarrow> e | Inr v \<Rightarrow> TypeError)"

subsection \<open>Modality loaders\<close>

text \<open>
  A cache lookup \<open>cache.get(path, [])\<close> followed by \<open>== []\<close>: the test succeeds exactly
  when the path has no entry, since a decoded array never compares equal to the empty list.
  A loader that raises leaves the caches as they were.
\<close>

definition load_image :: "world \<Rightarrow> data_generator \<Rightarrow> string \<Rightarrow> error + (ndarray \<times> data_generator)" where
  "load_image w self image_path =
     (case image_cache self image_path of
        Some img \<Rightarrow> Inr (img, self)
      | None \<Rightarrow>
          (case decode_image w image_path (image_target_shape self) of
             Inl e \<Rightarrow> Inl e
           | Inr img \<Rightarrow>
               Inr (img, self\<lparr>voxelgrid_cache := (voxelgrid_cache self)(image_path \<mapsto> img)\<rparr>)))"

definition load_voxelgrid :: "world \<Rightarrow> data_generator \<Rightarrow> string \<Rightarrow> error + (ndarray \<times> data_generator)" where
  "load_voxelgrid w self pcd_path =
     (case voxelgrid_cache self pcd_path of
        Some voxelgrid \<Rightarrow> Inr (voxelgrid, self)
      | None \<Rightarrow>
          (case decode_voxelgrid w pcd_path (voxelgrid_target_shape self) of
             Inl e \<Rightarrow> Inl e
           | Inr voxelgrid \<Rightarrow>
               Inr (voxelgrid, self\<lparr>voxelgrid_cache := (voxelgrid_cache self)(pcd_path \<mapsto> voxelgrid)\<rparr>)))"

text \<open>
  The assertion of the raw point-cloud loader compares the shape with the tuple
  \<open>(pointcloud_target_size, 4)\<close>, where \<open>pointcloud_target_size\<close> is a plain name and not
  \<open>self.pointcloud_target_size\<close>. Building the tuple looks the name up; were it bound to a
  module, class or function, the tuple would differ from every shape and the assertion would
  fail with the path as its message.
\<close>

definition load_pointcloud :: "world \<Rightarrow> data_generator \<Rightarrow> string \<Rightarrow> error + (ndarray \<times> data_generator)" where
  "load_pointcloud w self pcd_path =
     (case pointcloud_cache self pcd_path of
        Some pointcloud \<Rightarrow> Inr (pointcloud, self)
      | None \<Rightarrow>
          (case read_points w pcd_path of
             Inl e \<Rightarrow> Inl e
           | Inr values \<Rightarrow>
               (let pointcloud = np_array (slice_upto (pointcloud_target_size self) values) in
                case global_name ''pointcloud_target_size'' of
                  Inl e \<Rightarrow> Inl e
                | Inr v \<Rightarrow>
                    Inl (AssertionError (pcd_path @ '' '' @ str_tuple (shape pointcloud))))))"

subsection \<open>Reported shapes\<close>

definition get_input_shape :: "data_generator \<Rightarrow> error + nat list" where
  "get_input_shape self =
     (if input_type self = ''image'' then Inr [90, 160, 3]
      else if input_type self = ''voxelgrid'' then Inr [32, 32, 32]
      else if input_type self = ''pointcloud'' then Inr [32000, 4]
      else Inl raise_unknown_input_type)"

definition get_output_size :: "data_generator \<Rightarrow> nat" where
  "get_output_size self = length (output_targets self)"

section \<open>Construction\<close>

subsection \<open>Path discovery\<close>

text \<open>\<open>os.path.join\<close> of two components on a POSIX system.\<close>

definition path_join :: "string \<Rightarrow> string \<Rightarrow> string" where
  "path_join a b =
     (if b \<noteq> [] \<and> hd b = CHR ''/'' then b
      else if a = [] \<or> last a = CHR ''/'' then a @ b
      else a @ ''/'' @ b)"

definition get_paths :: "world \<Rightarrow> data_generator \<Rightarrow> data_generator" where
  "get_paths w self =
     (let json_paths = glob w (path_join (dataset_path self) ''**/*.json'') in
      self\<lparr>jpg_paths := glob w (path_join (path_join (dataset_path self) ''storage/person'') ''**/*.jpg''),
           pcd_paths := glob w (path_join (path_join (dataset_path self) ''storage/person'') ''**/*.pcd''),
           json_paths_personal := filter (\<lambda>json_path. \<not> str_in ''measures'' json_path) json_paths,
           json_paths_measures := filter (\<lambda>json_path. str_in ''measures'' json_path) json_paths\<rparr>)"

subsection \<open>The subject list\<close>

text \<open>
  \<open>sorted\<close> on values read from JSON: strings order lexicographically by character code,
  integers numerically, and comparing a string with an integer raises \<open>TypeError\<close>.
\<close>

definition py_sorted :: "json_value list \<Rightarrow> error + json_value list" where
  "py_sorted vs =
     (if list_all is_JStr vs then Inr (map JStr (sort (map the_str vs)))
      else if list_all is_JNum vs then Inr (map JNum (sort (map the_num vs)))
      else Inl TypeError)"

fun find_qrcodes_loop :: "world \<Rightarrow> data_generator \<Rightarrow> json_value list \<Rightarrow> string list \<Rightarrow> error + json_value list" where
  "find_qrcodes_loop w self found [] = Inr found"
| "find_qrcodes_loop w self found (json_path_measure # rest) =
     (case load_json w json_path_measure of
        Inl e \<Rightarrow> Inl e
      | Inr json_data_measure \<Rightarrow>
          (case extract_qrcode w self json_data_measure of
             Inl e \<Rightarrow> Inl e
           | Inr qrcode \<Rightarrow> find_qrcodes_loop w self (found @ [qrcode]) rest))"

text \<open>
  \<open>sorted(list(set(qrcodes)))\<close>: the iteration order of the set does not matter, since
  the elements are pairwise different when they are sorted.
\<close>

definition find_qrcodes :: "world \<Rightarrow> data_generator \<Rightarrow> error + data_generator" where
  "find_qrcodes w self =
     (case find_qrcodes_loop w self [] (json_paths_measures self) of
        Inl e \<Rightarrow> Inl e
      | Inr qs \<Rightarrow>
          (case py_sorted (remdups qs) of
             Inl e \<Rightarrow> Inl e
           | Inr sorted_qrcodes \<Rightarrow> Inr (self\<lparr>qrcodes := sorted_qrcodes\<rparr>)))"

subsection \<open>The sample dictionary\<close>

fun extract_targets_loop :: "json_doc \<Rightarrow> json_value list \<Rightarrow> string list \<Rightarrow> error + json_value list" where
  "extract_targets_loop json_data_measure targets [] = Inr targets"
| "extract_targets_loop json_data_measure targets (output_target # rest) =
     (case field_value json_data_measure output_target of
        Inl e \<Rightarrow> Inl e
      | Inr v \<Rightarrow> extract_targets_loop json_data_measure (targets @ [v]) rest)"

definition extract_targets :: "data_generator \<Rightarrow> json_doc \<Rightarrow> error + json_value list" where
  "extract_targets self json_data_measure =
     extract_targets_loop json_data_measure [] (output_targets self)"

text \<open>
  The dictionary keeps its keys in insertion order; assigning to a key that is present
  replaces its value in place.
\<close>

definition dict_set :: "('k \<times> 'v) list \<Rightarrow> 'k \<Rightarrow> 'v \<Rightarrow> ('k \<times> 'v) list" where
  "dict_set d k v =
     (if k \<in> set (map fst d) then map (\<lambda>(k', v'). if k' = k then (k', v) else (k', v')) d
      else d @ [(k, v)])"

text \<open>\<open>raise Exception("Multiple manual measurements for QR-code: " + qrcode)\<close>\<close>

definition raise_multiple_manual :: "json_value \<Rightarrow> error" where
  "raise_multiple_manual qrcode =
     (case qrcode of
        JStr s \<Rightarrow> Exception (''Multiple manual measurements for QR-code: '' @ s)
      | JNum n \<Rightarrow> TypeError)"

text \<open>\<open>qrcode in path and "measurements" in path\<close>\<close>

definition matches_subject :: "json_value \<Rightarrow> string \<Rightarrow> error + bool" where
  "matches_subject qrcode path =
     (case value_in qrcode path of
        Inl e \<Rightarrow> Inl e
      | Inr b \<Rightarrow> Inr (b \<and> str_in ''measurements'' path))"

fun create_qrcodes_dictionary_loop ::
  "world \<Rightarrow> data_generator \<Rightarrow> (json_value \<times> entry) list \<Rightarrow> string list \<Rightarrow> error + (json_value \<times> entry) list" where
  "create_qrcodes_dictionary_loop w self d [] = Inr d"
| "create_qrcodes_dictionary_loop w self d (json_path_measure # rest) =
     (case load_json w json_path_measure of
        Inl e \<Rightarrow> Inl e
      | Inr json_data_measure \<Rightarrow>
          (case field_value json_data_measure ''type'' of
             Inl e \<Rightarrow> Inl e
           | Inr t \<Rightarrow>
               if t \<noteq> JStr ''manual'' then create_qrcodes_dictionary_loop w self d rest
               else
                 (case extract_qrcode w self json_data_measure of
                    Inl e \<Rightarrow> Inl e
                  | Inr qrcode \<Rightarrow>
                      if qrcode \<in> set (map fst d) then Inl (raise_multiple_manual qrcode)
                      else
                        (case extract_targets self json_data_measure of
                           Inl e \<Rightarrow> Inl e
                         | Inr targets \<Rightarrow>
                             (case comprehension (matches_subject qrcode) (jpg_paths self) of
                                Inl e \<Rightarrow> Inl e
                              | Inr jpgs \<Rightarrow>
                                  (case comprehension (matches_subject qrcode) (pcd_paths self) of
                                     Inl e \<Rightarrow> Inl e
                                   | Inr pcds \<Rightarrow>
                                       create_qrcodes_dictionary_loop w self
                                         (dict_set d qrcode (targets, jpgs, pcds)) rest))))))"

definition create_qrcodes_dictionary :: "world \<Rightarrow> data_generator \<Rightarrow> error + data_generator" where
  "create_qrcodes_dictionary w self =
     (case create_qrcodes_dictionary_loop w self [] (json_paths_measures self) of
        Inl e \<Rightarrow> Inl e
      | Inr d \<Rightarrow> Inr (self\<lparr>qrcodes_dictionary := d\<rparr>))"

subsection \<open>The constructor\<close>

text \<open>
  The two \<open>isinstance\<close> preconditions hold by typing here: the selector is a string
  and the output targets are a list. Fields the constructor assigns later start empty.
\<close>

definition init ::
  "world \<Rightarrow> string \<Rightarrow> string \<Rightarrow> string list \<Rightarrow> nat list \<Rightarrow> nat list \<Rightarrow> int \<Rightarrow> error + data_generator" where
  "init w dataset_path' input_type' output_targets' image_target_shape'
        voxelgrid_target_shape' pointcloud_target_size' =
     (if \<not> path_exists w dataset_path' then
        Inl (AssertionError (''dataset_path must exist: '' @ dataset_path'))
      else if length image_target_shape' \<noteq> 2 then
        Inl (AssertionError (''image_target_shape must be 2-dimensional: '' @ str_tuple image_target_shape'))
      else if length voxelgrid_target_shape' \<noteq> 3 then
        Inl (AssertionError (''voxelgrid_target_shape must be 3-dimensional: '' @ str_tuple voxelgrid_target_shape'))
      else
        (let self = get_paths w
               \<lparr>dataset_path = dataset_path', input_type = input_type',
                output_targets = output_targets', image_target_shape = image_target_shape',
                voxelgrid_target_shape = voxelgrid_target_shape',
                pointcloud_target_size = pointcloud_target_size',
                image_cache = Map.empty, voxelgrid_cache = Map.empty,
                pointcloud_cache = Map.empty,
                jpg_paths = [], pcd_paths = [], json_paths_personal = [],
                json_paths_measures = [], qrcodes = [], qrcodes_dictionary = []\<rparr>
         in case find_qrcodes w self of
              Inl e \<Rightarrow> Inl e
            | Inr self \<Rightarrow>
                if qrcodes self = [] then Inl (AssertionError ''No QR-codes found!'')
                else create_qrcodes_dictionary w self))"

section \<open>The batch generator\<close>

text \<open>
  \<open>random.choice(seq)\<close> raises \<open>IndexError\<close> on an empty sequence and otherwise returns
  the element at an index the random number generator picks below \<open>len(seq)\<close>. The
  generator's randomness is a list of natural numbers, one consumed by each call, reduced
  modulo the length.
\<close>

definition choice :: "'a list \<Rightarrow> nat \<Rightarrow> 'a" where
  "choice seq r = seq ! (r mod length seq)"

text \<open>
  What one request for the next batch can come to: a batch is yielded, an exception leaves
  the generator, or the loop is still retrying when the supplied randomness is used up.
\<close>

datatype 'a outcome = Yielded 'a | Raised error | Starved

type_synonym batch = "ndarray list \<times> json_value list list"

text \<open>
  The inner loop \<open>while len(x_inputs) < size\<close>, with \<open>size\<close> written \<open>batch_size\<close>. The yielded pair holds the rows that
  \<open>np.array\<close> stacks: the first dimension of each stacked array is the number of rows.
\<close>

fun batch_loop ::
  "world \<Rightarrow> int \<Rightarrow> json_value list \<Rightarrow> data_generator \<Rightarrow> ndarray list \<Rightarrow> json_value list list \<Rightarrow>
   nat list \<Rightarrow> (batch \<times> data_generator \<times> nat list) outcome" where
  "batch_loop w batch_size qrcodes_to_use self x_inputs y_outputs draws =
     (if \<not> int (length x_inputs) < batch_size then Yielded ((x_inputs, y_outputs), self, draws)
      else if qrcodes_to_use = [] then Raised IndexError
      else
        (case draws of
           [] \<Rightarrow> Starved
         | r # rs \<Rightarrow>
             (case map_of (qrcodes_dictionary self) (choice qrcodes_to_use r) of
                None \<Rightarrow> batch_loop w batch_size qrcodes_to_use self x_inputs y_outputs rs
              | Some (targets, jpgs, pcds) \<Rightarrow>
                  if input_type self = ''image'' then
                    (if length jpgs = 0 then
                       batch_loop w batch_size qrcodes_to_use self x_inputs y_outputs rs
                     else
                       (case rs of
                          [] \<Rightarrow> Starved
                        | r' # rs' \<Rightarrow>
                            (case load_image w self (choice jpgs r') of
                               Inl e \<Rightarrow> Raised e
                             | Inr (x_input, self') \<Rightarrow>
                                 batch_loop w batch_size qrcodes_to_use self'
                                   (x_inputs @ [x_input]) (y_outputs @ [targets]) rs')))
                  else if input_type self = ''voxelgrid'' then
                    (if length pcds = 0 then
                       batch_loop w batch_size qrcodes_to_use self x_inputs y_outputs rs
                     else
                       (case rs of
                          [] \<Rightarrow> Starved
                        | r' # rs' \<Rightarrow>
                            (case load_voxelgrid w self (choice pcds r') of
                               Inl e \<Rightarrow>
                                 batch_loop w batch_size qrcodes_to_use self x_inputs y_outputs rs'
                             | Inr (x_input, self') \<Rightarrow>
                                 batch_loop w batch_size qrcodes_to_use self'
                                   (x_inputs @ [x_input]) (y_outputs @ [targets]) rs')))
                  else if input_type self = ''pointcloud'' then
                    (if length pcds = 0 then
                       batch_loop w batch_size qrcodes_to_use self x_inputs y_outputs rs
                     else
                       (case rs of
                          [] \<Rightarrow> Starved
                        | r' # rs' \<Rightarrow>
                            (case load_pointcloud w self (choice pcds r') of
                               Inl e \<Rightarrow>
                                 batch_loop w batch_size qrcodes_to_use self x_inputs y_outputs rs'
                             | Inr (x_input, self') \<Rightarrow>
                                 batch_loop w batch_size qrcodes_to_use self'
                                   (x_inputs @ [x_input]) (y_outputs @ [targets]) rs')))
                  else Raised raise_unknown_input_type)))"

text \<open>
  One \<open>next\<close> on the generator object: the accumulators start empty for every batch.
  Asking again continues from the returned index and the remaining randomness.
\<close>

definition generate ::
  "world \<Rightarrow> data_generator \<Rightarrow> int \<Rightarrow> json_value list option \<Rightarrow> nat list \<Rightarrow>
   (batch \<times> data_generator \<times> nat list) outcome" where
  "generate w self batch_size qrcodes_to_use draws =
     batch_loop w batch_size (case qrcodes_to_use of None \<Rightarrow> qrcodes self | Some qs \<Rightarrow> qs)
       self [] [] draws"

section \<open>The full-dataset materializer\<close>

text \<open>
  The locals of \<open>generate_dataset\<close> that outlive one iteration: the three accumulators and
  the variable \<open>voxelgrid\<close>, which is unbound until the first assignment.
\<close>

record dataset_locals =
  x_qrcodes :: "json_value list"
  x_inputs :: "ndarray list"
  y_outputs :: "json_value list list"
  voxelgrid :: "ndarray option"

definition append_row :: "json_value \<Rightarrow> ndarray \<Rightarrow> json_value list \<Rightarrow> dataset_locals \<Rightarrow> dataset_locals" where
  "append_row qrcode x_input targets l =
     l\<lparr>x_qrcodes := x_qrcodes l @ [qrcode],
       x_inputs := x_inputs l @ [x_input],
       y_outputs := y_outputs l @ [targets]\<rparr>"

fun process_images ::
  "world \<Rightarrow> json_value \<Rightarrow> json_value list \<Rightarrow> string list \<Rightarrow> data_generator \<Rightarrow> dataset_locals \<Rightarrow>
   error + (data_generator \<times> dataset_locals)" where
  "process_images w qrcode targets [] self l = Inr (self, l)"
| "process_images w qrcode targets (jpg_path # rest) self l =
     (case load_image w self jpg_path of
        Inl e \<Rightarrow> Inl e
      | Inr (img, self') \<Rightarrow>
          process_images w qrcode targets rest self' (append_row qrcode img targets l))"

text \<open>
  In the voxel-grid branch the \<open>except\<close> clause does not leave the iteration: the append
  after it reads the local \<open>voxelgrid\<close>, whatever it holds then.
\<close>

fun process_voxelgrids ::
  "world \<Rightarrow> json_value \<Rightarrow> json_value list \<Rightarrow> string list \<Rightarrow> data_generator \<Rightarrow> dataset_locals \<Rightarrow>
   error + (data_generator \<times> dataset_locals)" where
  "process_voxelgrids w qrcode targets [] self l = Inr (self, l)"
| "process_voxelgrids w qrcode targets (pcd_path # rest) self l =
     (let (self', l') =
            (case load_voxelgrid w self pcd_path of
               Inl e \<Rightarrow> (self, l)
             | Inr (v, self') \<Rightarrow> (self', l\<lparr>voxelgrid := Some v\<rparr>))
      in case voxelgrid l' of
           None \<Rightarrow> Inl (UnboundLocalError ''voxelgrid'')
         | Some v \<Rightarrow>
             process_voxelgrids w qrcode targets rest self' (append_row qrcode v targets l'))"

fun process_pointclouds ::
  "world \<Rightarrow> json_value \<Rightarrow> json_value list \<Rightarrow> string list \<Rightarrow> data_generator \<Rightarrow> dataset_locals \<Rightarrow>
   error + (data_generator \<times> dataset_locals)" where
  "process_pointclouds w qrcode targets [] self l = Inr (self, l)"
| "process_pointclouds w qrcode targets (pcd_path # rest) self l =
     (case load_pointcloud w self pcd_path of
        Inl e \<Rightarrow> process_pointclouds w qrcode targets rest self l
      | Inr (pointcloud, self') \<Rightarrow>
          process_pointclouds w qrcode targets rest self' (append_row qrcode pointcloud targets l))"

fun generate_dataset_loop ::
  "world \<Rightarrow> json_value list \<Rightarrow> data_generator \<Rightarrow> dataset_locals \<Rightarrow>
   error + (data_generator \<times> dataset_locals)" where
  "generate_dataset_loop w [] self l = Inr (self, l)"
| "generate_dataset_loop w (qrcode # rest) self l =
     (case map_of (qrcodes_dictionary self) qrcode of
        None \<Rightarrow> generate_dataset_loop w rest self l
      | Some (targets, jpgs, pcds) \<Rightarrow>
          (case (if input_type self = ''image'' then process_images w qrcode targets jpgs self l
                 else if input_type self = ''voxelgrid'' then
                   process_voxelgrids w qrcode targets pcds self l
                 else if input_type self = ''pointcloud'' then
                   process_pointclouds w qrcode targets pcds self l
                 else Inl raise_unknown_input_type) of
             Inl e \<Rightarrow> Inl e
           | Inr (self', l') \<Rightarrow> generate_dataset_loop w rest self' l'))"

definition generate_dataset ::
  "world \<Rightarrow> data_generator \<Rightarrow> json_value list option \<Rightarrow>
   error + ((json_value list \<times> ndarray list \<times> json_value list list) \<times> data_generator)" where
  "generate_dataset w self qrcodes_to_use =
     (case generate_dataset_loop w
             (case qrcodes_to_use of None \<Rightarrow> qrcodes self | Some qs \<Rightarrow> qs) self
             \<lparr>x_qrcodes = [], x_inputs = [], y_outputs = [], voxelgrid = None\<rparr> of
        Inl e \<Rightarrow> Inl e
      | Inr (self', l) \<Rightarrow> Inr ((x_qrcodes l, x_inputs l, y_outputs l), self'))"

section \<open>Vocabulary for stating properties\<close>

text \<open>
  Python's \<open>a <= b\<close> on two values read from JSON, where it is defined: two strings compare
  lexicographically by character code, two integers numerically. A string and an integer
  are not comparable.
\<close>

fun py_le :: "json_value \<Rightarrow> json_value \<Rightarrow> bool" where
  "py_le (JStr s) (JStr t) = (s \<le> t)"
| "py_le (JNum i) (JNum j) = (i \<le> j)"
| "py_le (JStr s) (JNum j) = False"
| "py_le (JNum i) (JStr t) = False"

text \<open>A path whose JSON document loads and has \<open>type.value == "manual"\<close>.\<close>

definition manual_record :: "world \<Rightarrow> string \<Rightarrow> bool" where
  "manual_record w path =
     (case load_json w path of
        Inl e \<Rightarrow> False
      | Inr json_data_measure \<Rightarrow> json_data_measure ''type'' = Some (JStr ''manual''))"

section \<open>Documented behaviour of the decoders\<close>

text \<open>
  What the external libraries document about the shape of what they return. An image loaded
  at \<open>target_size = (a, b)\<close> has \<open>a\<close> rows and \<open>b\<close> columns; turned by a quarter with
  \<open>expand=True\<close> it has \<open>b\<close> rows and \<open>a\<close> columns, and three channels. The density
  feature vector of a voxel grid has the grid's dimensions.
\<close>

definition image_decoder_contract :: "world \<Rightarrow> bool" where
  "image_decoder_contract w =
     (\<forall>path a b arr. decode_image w path [a, b] = Inr arr \<longrightarrow> shape arr = [b, a, 3])"

definition voxelgrid_decoder_contract :: "world \<Rightarrow> bool" where
  "voxelgrid_decoder_contract w =
     (\<forall>path target arr. decode_voxelgrid w path target = Inr arr \<longrightarrow> shape arr = target)"

section \<open>A small dataset\<close>

text \<open>
  One subject \<open>ABC123\<close>: a manual measurement record with person id \<open>P1\<close>, height 150
  and weight 45, a personal record under a path containing \<open>P1\<close>, one image and two
  scans. The second scan is a file the point-cloud library cannot read. A second person
  \<open>P2\<close> has a personal record only. The index is built with an image target of
  \<open>(2, 1)\<close>, a voxel-grid target of \<open>(2, 1, 1)\<close> and a point-cloud target size of 2.
\<close>

definition example_measure :: json_doc where
  "example_measure =
     [''type'' \<mapsto> JStr ''manual'', ''personId'' \<mapsto> JStr ''P1'',
      ''height'' \<mapsto> JNum 150, ''weight'' \<mapsto> JNum 45]"

text \<open>
  The decoders of the example produce arrays of the shape the libraries document for a
  target: \<open>(target[1], target[0], 3)\<close> for an image loaded at \<open>target_size = target\<close>
  and turned by a quarter, and the grid's own dimensions for a voxel grid.
\<close>

definition blank_image :: "nat list \<Rightarrow> int \<Rightarrow> ndarray" where
  "blank_image target v =
     (case target of
        [a, b] \<Rightarrow> NDArray [b, a, 3] (replicate (b * a * 3) v)
      | _ \<Rightarrow> NDArray [] [])"

definition blank_voxelgrid :: "nat list \<Rightarrow> ndarray" where
  "blank_voxelgrid target = NDArray target (replicate (prod_list target) 0)"

definition example_points :: points_values where
  "example_points = PointsValues 4 [[1, 2, 3, 4], [5, 6, 7, 8], [9, 10, 11, 12]]"

definition example_world :: world where
  "example_world =
     \<lparr>path_exists = (\<lambda>path. path = ''data''),
      glob = (\<lambda>pattern.
        if pattern = ''data/storage/person/**/*.jpg'' then
          [''data/storage/person/ABC123/measurements/1.jpg'']
        else if pattern = ''data/storage/person/**/*.pcd'' then
          [''data/storage/person/ABC123/measurements/1.pcd'',
           ''data/storage/person/ABC123/measurements/2.pcd'']
        else if pattern = ''data/**/*.json'' then
          [''data/P1/person.json'', ''data/P2/person.json'', ''data/P1/measures/m.json'']
        else []),
      load_json = (\<lambda>path.
        if path = ''data/P1/person.json'' then Inr [''qrcode'' \<mapsto> JStr ''ABC123'']
        else if path = ''data/P2/person.json'' then Inr [''qrcode'' \<mapsto> JStr ''XYZ789'']
        else if path = ''data/P1/measures/m.json'' then Inr example_measure
        else Inl (External path)),
      decode_image = (\<lambda>path target.
        if path = ''data/storage/person/ABC123/measurements/1.jpg'' then Inr (blank_image target 0)
        else Inl (External path)),
      decode_voxelgrid = (\<lambda>path target.
        if path = ''data/storage/person/ABC123/measurements/1.pcd'' then
          Inr (blank_voxelgrid target)
        else Inl (External path)),
      read_points = (\<lambda>path.
        if path = ''data/storage/person/ABC123/measurements/1.pcd'' then Inr example_points
        else Inl (External path))\<rparr>"

text \<open>The index over this dataset, as the constructor leaves it, for a given selector.\<close>

definition example_index :: "string \<Rightarrow> data_generator" where
  "example_index selector =
     \<lparr>dataset_path = ''data'', input_type = selector,
      output_targets = [''height'', ''weight''], image_target_shape = [2, 1],
      voxelgrid_target_shape = [2, 1, 1], pointcloud_target_size = 2,
      image_cache = Map.empty, voxelgrid_cache = Map.empty, pointcloud_cache = Map.empty,
      jpg_paths = [''data/storage/person/ABC123/measurements/1.jpg''],
      pcd_paths = [''data/storage/person/ABC123/measurements/1.pcd'',
                   ''data/storage/person/ABC123/measurements/2.pcd''],
      json_paths_personal = [''data/P1/person.json'', ''data/P2/person.json''],
      json_paths_measures = [''data/P1/measures/m.json''],
      qrcodes = [JStr ''ABC123''],
      qrcodes_dictionary =
        [(JStr ''ABC123'',
          [JNum 150, JNum 45],
          [''data/storage/person/ABC123/measurements/1.jpg''],
          [''data/storage/person/ABC123/measurements/1.pcd'',
           ''data/storage/person/ABC123/measurements/2.pcd''])]\<rparr>"

text \<open>
  The same dataset with more measurement records: person \<open>P2\<close> (subject \<open>XYZ789\<close>) has
  one record of type \<open>scan\<close>, found first, and person \<open>P1\<close> has a record of type \<open>scan\<close>
  beside the manual one. In \<open>repeated_world\<close> that second record of \<open>P1\<close> is manual too.
\<close>

definition survey_world :: world where
  "survey_world =
     example_world
       \<lparr>glob := (\<lambda>pattern.
          if pattern = ''data/**/*.json'' then
            [''data/P2/measures/a.json'', ''data/P1/person.json'', ''data/P1/measures/m.json'',
             ''data/P2/person.json'', ''data/P1/measures/s.json'']
          else glob example_world pattern),
        load_json := (\<lambda>path.
          if path = ''data/P2/measures/a.json'' then
            Inr [''type'' \<mapsto> JStr ''scan'', ''personId'' \<mapsto> JStr ''P2'']
          else if path = ''data/P1/measures/s.json'' then
            Inr [''type'' \<mapsto> JStr ''scan'', ''personId'' \<mapsto> JStr ''P1'']
          else load_json example_world path)\<rparr>"

definition repeated_world :: world where
  "repeated_world =
     survey_world
       \<lparr>load_json := (\<lambda>path.
          if path = ''data/P1/measures/s.json'' then Inr example_measure
          else load_json survey_world path)\<rparr>"

section \<open>Properties\<close>

declare batch_loop.simps [simp del]
declare str_nat.simps [simp del]

lemma str_in_iff: "str_in s t \<longleftrightarrow> (\<exists>ps ss. t = ps @ s @ ss)"
proof (induction t)
  case Nil
  then show ?case by auto
next
  case (Cons c cs)
  show ?case
  proof
    assume "str_in s (c # cs)"
    then consider "prefix s (c # cs)" | "str_in s cs" by auto
    then show "\<exists>ps ss. c # cs = ps @ s @ ss"
    proof cases
      case 1
      then obtain ss where "c # cs = s @ ss" by (auto simp: prefix_def)
      then have "c # cs = [] @ s @ ss" by simp
      then show ?thesis by blast
    next
      case 2
      with Cons.IH obtain ps ss where "cs = ps @ s @ ss" by blast
      then have "c # cs = (c # ps) @ s @ ss" by simp
      then show ?thesis by blast
    qed
  next
    assume "\<exists>ps ss. c # cs = ps @ s @ ss"
    then obtain ps ss where eq: "c # cs = ps @ s @ ss" by blast
    show "str_in s (c # cs)"
    proof (cases ps)
      case Nil
      with eq have "prefix s (c # cs)" by (simp add: prefix_def)
      then show ?thesis by simp
    next
      case (Cons p ps')
      with eq have "cs = ps' @ s @ ss" by simp
      with Cons.IH have "str_in s cs" by blast
      then show ?thesis by simp
    qed
  qed
qed

lemma comprehension_total:
  "(\<And>x. x \<in> set xs \<Longrightarrow> cond x = Inr (p x)) \<Longrightarrow> comprehension cond xs = Inr (filter p xs)"
  by (induction xs) auto

lemma init_example:
  "init example_world ''data'' selector [''height'', ''weight''] [2, 1] [2, 1, 1] 2
     = Inr (example_index selector)"
  by (simp add: init_def example_world_def example_index_def get_paths_def path_join_def
      find_qrcodes_def extract_qrcode_def field_value_def example_measure_def value_in_def
      py_sorted_def create_qrcodes_dictionary_def extract_targets_def matches_subject_def
      dict_set_def)

subsection \<open>Subject extraction\<close>

text \<open>
  C6. Subject extraction reads \<open>personId.value\<close> and selects the personal-record paths
  that contain it as a substring. Unless exactly one path is selected the call fails with
  an \<open>AssertionError\<close> (no path and several paths alike). With exactly one path, whose
  record loads and has a \<open>qrcode.value\<close>, that value is returned.
\<close>

theorem extract_qrcode_unique_personal_record:
  assumes "field_value json_data_measure ''personId'' = Inr (JStr person_id)"
  shows "(length (filter (str_in person_id) (json_paths_personal self)) \<noteq> 1 \<longrightarrow>
            extract_qrcode w self json_data_measure = Inl (AssertionError []))
       \<and> (\<forall>p d q. filter (str_in person_id) (json_paths_personal self) = [p]
              \<and> load_json w p = Inr d \<and> d ''qrcode'' = Some q \<longrightarrow>
            extract_qrcode w self json_data_measure = Inr q)"
proof -
  have c: "comprehension (value_in (JStr person_id)) (json_paths_personal self)
             = Inr (filter (str_in person_id) (json_paths_personal self))"
    by (rule comprehension_total) (simp add: value_in_def)
  show ?thesis
    using assms by (auto simp: extract_qrcode_def c field_value_def)
qed

theorem extract_qrcode_unique_personal_record_witness:
  "field_value example_measure ''personId'' = Inr (JStr ''P1'')
   \<and> filter (str_in ''P1'') (json_paths_personal (example_index ''image'')) = [''data/P1/person.json'']
   \<and> load_json example_world ''data/P1/person.json'' = Inr [''qrcode'' \<mapsto> JStr ''ABC123'']
   \<and> extract_qrcode example_world (example_index ''image'') example_measure = Inr (JStr ''ABC123'')
   \<and> field_value [''personId'' \<mapsto> JStr ''P''] ''personId'' = Inr (JStr ''P'')
   \<and> length (filter (str_in ''P'') (json_paths_personal (example_index ''image''))) = 2
   \<and> extract_qrcode example_world (example_index ''image'') [''personId'' \<mapsto> JStr ''P'']
         = Inl (AssertionError [])
   \<and> field_value [''personId'' \<mapsto> JStr ''P3''] ''personId'' = Inr (JStr ''P3'')
   \<and> length (filter (str_in ''P3'') (json_paths_personal (example_index ''image''))) = 0
   \<and> extract_qrcode example_world (example_index ''image'') [''personId'' \<mapsto> JStr ''P3'']
         = Inl (AssertionError [])"
proof -
  let ?self = "example_index ''image''"
  have h1: "field_value example_measure ''personId'' = Inr (JStr ''P1'')"
    by (simp add: field_value_def example_measure_def)
  have f1: "filter (str_in ''P1'') (json_paths_personal ?self) = [''data/P1/person.json'']"
    by (simp add: example_index_def)
  have l1: "load_json example_world ''data/P1/person.json'' = Inr [''qrcode'' \<mapsto> JStr ''ABC123'']"
    by (simp add: example_world_def)
  have h2: "field_value [''personId'' \<mapsto> JStr ''P''] ''personId'' = Inr (JStr ''P'')"
    by (simp add: field_value_def)
  have f2: "length (filter (str_in ''P'') (json_paths_personal ?self)) = 2"
    by (simp add: example_index_def)
  have h3: "field_value [''personId'' \<mapsto> JStr ''P3''] ''personId'' = Inr (JStr ''P3'')"
    by (simp add: field_value_def)
  have f3: "length (filter (str_in ''P3'') (json_paths_personal ?self)) = 0"
    by (simp add: example_index_def)
  from extract_qrcode_unique_personal_record [OF h1, of ?self example_world] f1 l1
  have r1: "extract_qrcode example_world ?self example_measure = Inr (JStr ''ABC123'')"
    by simp
  from extract_qrcode_unique_personal_record [OF h2, of ?self example_world] f2
  have r2: "extract_qrcode example_world ?self [''personId'' \<mapsto> JStr ''P''] = Inl (AssertionError [])"
    by simp
  from extract_qrcode_unique_personal_record [OF h3, of ?self example_world] f3
  have r3: "extract_qrcode example_world ?self [''personId'' \<mapsto> JStr ''P3''] = Inl (AssertionError [])"
    by simp
  show ?thesis using h1 f1 l1 r1 h2 f2 r2 h3 f3 r3 by blast
qed

subsection \<open>Facts about the loaders and the batch loop\<close>

lemma global_name_pointcloud_target_size:
  "global_name ''pointcloud_target_size'' = Inl (NameError ''pointcloud_target_size'')"
  by (simp add: global_name_def module_globals_def)

lemma raise_unknown_input_type_eq: "raise_unknown_input_type = NameError ''input_type''"
  by (simp add: raise_unknown_input_type_def global_name_def module_globals_def)

lemma load_image_frame:
  "load_image w self p = Inr (a, self') \<Longrightarrow> \<exists>vc. self' = self\<lparr>voxelgrid_cache := vc\<rparr>"
  by (auto simp: load_image_def split: option.splits sum.splits intro: exI[of _ "voxelgrid_cache self"])

lemma load_voxelgrid_frame:
  "load_voxelgrid w self p = Inr (a, self') \<Longrightarrow> \<exists>vc. self' = self\<lparr>voxelgrid_cache := vc\<rparr>"
  by (auto simp: load_voxelgrid_def split: option.splits sum.splits intro: exI[of _ "voxelgrid_cache self"])

lemma load_pointcloud_hit:
  "load_pointcloud w self p = Inr (a, self') \<Longrightarrow> pointcloud_cache self p = Some a \<and> self' = self"
  by (auto simp: load_pointcloud_def Let_def global_name_def module_globals_def split: option.splits sum.splits)

text \<open>
  An invariant of the accumulation loop: a property of the index and the accumulators that
  every successful load preserves holds when a batch is yielded, and the loop condition is
  false then.
\<close>

lemma batch_loop_Yielded:
  assumes "batch_loop w n qs self xs ys ds = Yielded ((xs', ys'), self', ds')"
    and "I self xs ys"
    and "\<And>self xs ys p x self2 t. I self xs ys \<Longrightarrow> int (length xs) < n \<Longrightarrow> input_type self = ''image'' \<Longrightarrow>
           load_image w self p = Inr (x, self2) \<Longrightarrow> I self2 (xs @ [x]) (ys @ [t])"
    and "\<And>self xs ys p x self2 t. I self xs ys \<Longrightarrow> int (length xs) < n \<Longrightarrow> input_type self = ''voxelgrid'' \<Longrightarrow>
           load_voxelgrid w self p = Inr (x, self2) \<Longrightarrow> I self2 (xs @ [x]) (ys @ [t])"
    and "\<And>self xs ys p x self2 t. I self xs ys \<Longrightarrow> int (length xs) < n \<Longrightarrow> input_type self = ''pointcloud'' \<Longrightarrow>
           load_pointcloud w self p = Inr (x, self2) \<Longrightarrow> I self2 (xs @ [x]) (ys @ [t])"
  shows "I self' xs' ys' \<and> \<not> int (length xs') < n"
  using assms
proof (induction w n qs self xs ys ds rule: batch_loop.induct)
  case (1 w n qs self xs ys ds)
  show ?case
  proof (cases "int (length xs) < n")
    case False
    with "1.prems"(1,2) show ?thesis by (simp add: batch_loop.simps)
  next
    case True
    from "1.prems"(1) True have run:
      "qs \<noteq> [] \<and> (\<exists>r rs. ds = r # rs)"
      by (subst (asm) batch_loop.simps) (auto split: list.splits if_splits)
    then obtain r rs where ds: "ds = r # rs" and qs: "qs \<noteq> []" by blast
    note steps = "1.prems"(3-5)
    show ?thesis
    proof (cases "map_of (qrcodes_dictionary self) (choice qs r)")
      case None
      with "1.prems"(1) True qs ds
      have "batch_loop w n qs self xs ys rs = Yielded ((xs', ys'), self', ds')"
        by (subst (asm) batch_loop.simps) simp
      from "1.IH"(1)[OF _ qs ds None this "1.prems"(2) steps] True
      show ?thesis by simp
    next
      case (Some entry)
      obtain t jp pp where entry: "entry = (t, jp, pp)" by (cases entry) auto
      have e: "map_of (qrcodes_dictionary self) (choice qs r) = Some (t, jp, pp)"
        using Some entry by simp
      have nn: "\<not> \<not> int (length xs) < n" using True by simp
      note inv = "1.prems"(2)
      have unfolded: "batch_loop w n qs self xs ys ds =
         (if input_type self = ''image'' then
            (if length jp = 0 then batch_loop w n qs self xs ys rs
             else (case rs of [] \<Rightarrow> Starved
                   | r' # rs' \<Rightarrow>
                       (case load_image w self (choice jp r') of
                          Inl e \<Rightarrow> Raised e
                        | Inr (x_input, self') \<Rightarrow>
                            batch_loop w n qs self' (xs @ [x_input]) (ys @ [t]) rs')))
          else if input_type self = ''voxelgrid'' then
            (if length pp = 0 then batch_loop w n qs self xs ys rs
             else (case rs of [] \<Rightarrow> Starved
                   | r' # rs' \<Rightarrow>
                       (case load_voxelgrid w self (choice pp r') of
                          Inl e \<Rightarrow> batch_loop w n qs self xs ys rs'
                        | Inr (x_input, self') \<Rightarrow>
                            batch_loop w n qs self' (xs @ [x_input]) (ys @ [t]) rs')))
          else if input_type self = ''pointcloud'' then
            (if length pp = 0 then batch_loop w n qs self xs ys rs
             else (case rs of [] \<Rightarrow> Starved
                   | r' # rs' \<Rightarrow>
                       (case load_pointcloud w self (choice pp r') of
                          Inl e \<Rightarrow> batch_loop w n qs self xs ys rs'
                        | Inr (x_input, self') \<Rightarrow>
                            batch_loop w n qs self' (xs @ [x_input]) (ys @ [t]) rs')))
          else Raised raise_unknown_input_type)"
        using True qs ds e by (subst batch_loop.simps) simp
      note run = "1.prems"(1)[unfolded unfolded]
      consider (img) "input_type self = ''image''"
        | (vox) "input_type self \<noteq> ''image''" "input_type self = ''voxelgrid''"
        | (pcl) "input_type self \<noteq> ''image''" "input_type self \<noteq> ''voxelgrid''"
                "input_type self = ''pointcloud''"
        | (unk) "input_type self \<noteq> ''image''" "input_type self \<noteq> ''voxelgrid''"
                "input_type self \<noteq> ''pointcloud''"
        by blast
      then show ?thesis
      proof cases
        case img
        show ?thesis
        proof (cases "length jp = 0")
          case True
          with run img have "batch_loop w n qs self xs ys rs = Yielded ((xs', ys'), self', ds')"
            by simp
          from "1.IH"(2)[OF nn qs ds e refl refl img True this inv steps] show ?thesis .
        next
          case False
          with run img obtain r' rs' x self2 where rs: "rs = r' # rs'"
            and ld: "load_image w self (choice jp r') = Inr (x, self2)"
            and rec: "batch_loop w n qs self2 (xs @ [x]) (ys @ [t]) rs' = Yielded ((xs', ys'), self', ds')"
            by (auto split: list.splits sum.splits)
          from steps(1)[OF inv \<open>int (length xs) < n\<close> img ld]
          have inv2: "I self2 (xs @ [x]) (ys @ [t])" .
          from "1.IH"(3)[OF nn qs ds e refl refl img False rs ld refl rec inv2 steps] show ?thesis .
        qed
      next
        case vox
        show ?thesis
        proof (cases "length pp = 0")
          case True
          with run vox have "batch_loop w n qs self xs ys rs = Yielded ((xs', ys'), self', ds')"
            by simp
          from "1.IH"(4)[OF nn qs ds e refl refl vox True this inv steps] show ?thesis .
        next
          case False
          with run vox obtain r' rs' where rs: "rs = r' # rs'"
            by (auto split: list.splits)
          show ?thesis
          proof (cases "load_voxelgrid w self (choice pp r')")
            case (Inl err)
            with run vox False rs
            have rec: "batch_loop w n qs self xs ys rs' = Yielded ((xs', ys'), self', ds')"
              by simp
            from "1.IH"(5)[OF nn qs ds e refl refl vox False rs Inl rec inv steps] show ?thesis .
          next
            case (Inr res)
            obtain x self2 where res: "res = (x, self2)" by (cases res) auto
            with Inr have ld: "load_voxelgrid w self (choice pp r') = Inr (x, self2)" by simp
            with run vox False rs
            have rec: "batch_loop w n qs self2 (xs @ [x]) (ys @ [t]) rs' = Yielded ((xs', ys'), self', ds')"
              by simp
            from steps(2)[OF inv \<open>int (length xs) < n\<close> vox(2) ld]
            have inv2: "I self2 (xs @ [x]) (ys @ [t])" .
            from "1.IH"(6)[OF nn qs ds e refl refl vox False rs ld refl rec inv2 steps] show ?thesis .
          qed
        qed
      next
        case pcl
        show ?thesis
        proof (cases "length pp = 0")
          case True
          with run pcl have "batch_loop w n qs self xs ys rs = Yielded ((xs', ys'), self', ds')"
            by simp
          from "1.IH"(7)[OF nn qs ds e refl refl pcl True this inv steps] show ?thesis .
        next
          case False
          with run pcl obtain r' rs' where rs: "rs = r' # rs'"
            by (auto split: list.splits)
          show ?thesis
          proof (cases "load_pointcloud w self (choice pp r')")
            case (Inl err)
            with run pcl False rs
            have rec: "batch_loop w n qs self xs ys rs' = Yielded ((xs', ys'), self', ds')"
              by simp
            from "1.IH"(8)[OF nn qs ds e refl refl pcl False rs Inl rec inv steps] show ?thesis .
          next
            case (Inr res)
            obtain x self2 where res: "res = (x, self2)" by (cases res) auto
            with Inr have ld: "load_pointcloud w self (choice pp r') = Inr (x, self2)" by simp
            with run pcl False rs
            have rec: "batch_loop w n qs self2 (xs @ [x]) (ys @ [t]) rs' = Yielded ((xs', ys'), self', ds')"
              by simp
            from steps(3)[OF inv \<open>int (length xs) < n\<close> pcl(3) ld]
            have inv2: "I self2 (xs @ [x]) (ys @ [t])" .
            from "1.IH"(9)[OF nn qs ds e refl refl pcl False rs ld refl rec inv2 steps] show ?thesis .
          qed
        qed
      next
        case unk
        with run show ?thesis by simp
      qed
    qed
  qed
qed

lemma batch_loop_pointcloud_never_yields:
  assumes "input_type self = ''pointcloud''" and "pointcloud_cache self = Map.empty"
    and "int (length xs) < n"
  shows "batch_loop w n qs self xs ys ds \<noteq> Yielded r"
proof
  assume y: "batch_loop w n qs self xs ys ds = Yielded r"
  obtain xs' ys' self' ds' where r: "r = ((xs', ys'), self', ds')"
    by (cases r) auto
  let ?I = "\<lambda>s (zs :: ndarray list) (ws :: json_value list list).
              input_type s = ''pointcloud'' \<and> pointcloud_cache s = Map.empty \<and> length zs = length xs"
  have "?I self' xs' ys' \<and> \<not> int (length xs') < n"
  proof (rule batch_loop_Yielded [where I = ?I, OF y [unfolded r]])
    show "?I self xs ys" using assms by simp
  qed (auto dest: load_pointcloud_hit)
  with assms(3) show False by simp
qed

subsection \<open>The raw point-cloud loader\<close>

text \<open>
  C1. The claim is that a file with at least \<open>pointcloud_target_size\<close> points loads as an
  array of shape \<open>(pointcloud_target_size, 4)\<close> and a shorter file fails the shape
  assertion. In the code the assertion names \<open>pointcloud_target_size\<close> without \<open>self\<close>:
  every call that misses the cache and reads its file raises \<open>NameError\<close>, whatever the
  number of points. The example file has three points for a target size of two.
\<close>

theorem load_pointcloud_raises_name_error:
  assumes "pointcloud_cache self pcd_path = None"
    and "read_points w pcd_path = Inr values"
  shows "load_pointcloud w self pcd_path = Inl (NameError ''pointcloud_target_size'')"
  using assms by (simp add: load_pointcloud_def global_name_pointcloud_target_size)

theorem load_pointcloud_raises_name_error_witness:
  "pointcloud_cache (example_index ''pointcloud'') ''data/storage/person/ABC123/measurements/1.pcd'' = None
   \<and> read_points example_world ''data/storage/person/ABC123/measurements/1.pcd'' = Inr example_points
   \<and> int (length (point_rows example_points)) \<ge> pointcloud_target_size (example_index ''pointcloud'')
   \<and> shape (np_array (slice_upto (pointcloud_target_size (example_index ''pointcloud'')) example_points)) = [2, 4]
   \<and> load_pointcloud example_world (example_index ''pointcloud'')
         ''data/storage/person/ABC123/measurements/1.pcd'' = Inl (NameError ''pointcloud_target_size'')"
proof -
  let ?p = "''data/storage/person/ABC123/measurements/1.pcd''"
  have a: "pointcloud_cache (example_index ''pointcloud'') ?p = None"
    by (simp add: example_index_def)
  have b: "read_points example_world ?p = Inr example_points"
    by (simp add: example_world_def)
  have c: "int (length (point_rows example_points)) \<ge> pointcloud_target_size (example_index ''pointcloud'')"
    by (simp add: example_points_def example_index_def)
  have d: "shape (np_array (slice_upto (pointcloud_target_size (example_index ''pointcloud'')) example_points)) = [2, 4]"
    by (simp add: example_points_def example_index_def np_array_def slice_upto_def)
  from load_pointcloud_raises_name_error [OF a b] a b c d show ?thesis by blast
qed

subsection \<open>Unknown selectors\<close>

text \<open>
  C4. The claim is that a selector outside \<open>image\<close>, \<open>voxelgrid\<close>, \<open>pointcloud\<close>
  aborts with an error that names the selector. The constructor accepts any selector. The
  three places that reject it build their message from the name \<open>input_type\<close> without
  \<open>self\<close>, so the error that leaves \<open>get_input_shape\<close>, the generator and the
  materializer is a \<open>NameError\<close> about \<open>input_type\<close>; the generator and the materializer
  reach it once a subject with a dictionary entry is at hand.
\<close>

theorem unknown_input_type_raises_name_error:
  assumes "input_type self \<noteq> ''image''" and "input_type self \<noteq> ''voxelgrid''"
    and "input_type self \<noteq> ''pointcloud''"
  shows "get_input_shape self = Inl (NameError ''input_type'')
     \<and> (\<forall>batch_size qs r rs entry.
           0 < batch_size \<and> qs \<noteq> [] \<and> map_of (qrcodes_dictionary self) (choice qs r) = Some entry \<longrightarrow>
           generate w self batch_size (Some qs) (r # rs) = Raised (NameError ''input_type''))
     \<and> (\<forall>q rest entry.
           map_of (qrcodes_dictionary self) q = Some entry \<longrightarrow>
           generate_dataset w self (Some (q # rest)) = Inl (NameError ''input_type''))"
  using assms
  by (auto simp: get_input_shape_def raise_unknown_input_type_eq generate_def batch_loop.simps
      generate_dataset_def)

theorem unknown_input_type_raises_name_error_witness:
  "init example_world ''data'' ''hologram'' [''height'', ''weight''] [2, 1] [2, 1, 1] 2
     = Inr (example_index ''hologram'')
   \<and> input_type (example_index ''hologram'') = ''hologram''
   \<and> get_input_shape (example_index ''hologram'') = Inl (NameError ''input_type'')
   \<and> generate example_world (example_index ''hologram'') 1 (Some [JStr ''ABC123'']) [0, 0]
       = Raised (NameError ''input_type'')
   \<and> generate_dataset example_world (example_index ''hologram'') (Some [JStr ''ABC123''])
       = Inl (NameError ''input_type'')"
proof -
  let ?g = "example_index ''hologram''"
  have i: "input_type ?g = ''hologram''" by (simp add: example_index_def)
  have a: "input_type ?g \<noteq> ''image''" and b: "input_type ?g \<noteq> ''voxelgrid''"
    and c: "input_type ?g \<noteq> ''pointcloud''"
    by (simp_all add: example_index_def)
  have d: "map_of (qrcodes_dictionary ?g) (choice [JStr ''ABC123''] 0)
       = Some ([JNum 150, JNum 45],
               [''data/storage/person/ABC123/measurements/1.jpg''],
               [''data/storage/person/ABC123/measurements/1.pcd'',
                ''data/storage/person/ABC123/measurements/2.pcd''])"
    by (simp add: example_index_def choice_def)
  then have d': "map_of (qrcodes_dictionary ?g) (JStr ''ABC123'')
       = Some ([JNum 150, JNum 45],
               [''data/storage/person/ABC123/measurements/1.jpg''],
               [''data/storage/person/ABC123/measurements/1.pcd'',
                ''data/storage/person/ABC123/measurements/2.pcd''])"
    by (simp add: choice_def)
  note t = unknown_input_type_raises_name_error [OF a b c, of example_world]
  from t have r1: "get_input_shape ?g = Inl (NameError ''input_type'')" by blast
  from t d have r2: "generate example_world ?g 1 (Some [JStr ''ABC123'']) [0, 0]
       = Raised (NameError ''input_type'')"
    by (metis list.distinct(1) zero_less_one)
  from t d' have r3: "generate_dataset example_world ?g (Some [JStr ''ABC123''])
       = Inl (NameError ''input_type'')"
    by blast
  from init_example [of "''hologram''"] i r1 r2 r3 show ?thesis by blast
qed

subsection \<open>The batch generator on raw point clouds\<close>

text \<open>
  C5. The claim is that the generator eventually yields a batch of \<open>N\<close> rows when some
  subject of the subset has files that decode. With the \<open>pointcloud\<close> selector every load
  raises (C1), the generator swallows the error and retries, and no randomness whatever
  makes it yield a batch of a positive size.
\<close>

theorem generate_pointcloud_never_yields:
  assumes "input_type self = ''pointcloud''" and "pointcloud_cache self = Map.empty"
    and "0 < batch_size"
  shows "generate w self batch_size qrcodes_to_use draws \<noteq> Yielded r"
  unfolding generate_def
  using assms by (intro batch_loop_pointcloud_never_yields) simp_all

theorem generate_pointcloud_never_yields_witness:
  "input_type (example_index ''pointcloud'') = ''pointcloud''
   \<and> pointcloud_cache (example_index ''pointcloud'') = Map.empty
   \<and> (0 :: int) < 1
   \<and> map_of (qrcodes_dictionary (example_index ''pointcloud'')) (JStr ''ABC123'')
       = Some ([JNum 150, JNum 45],
               [''data/storage/person/ABC123/measurements/1.jpg''],
               [''data/storage/person/ABC123/measurements/1.pcd'',
                ''data/storage/person/ABC123/measurements/2.pcd''])
   \<and> read_points example_world ''data/storage/person/ABC123/measurements/1.pcd'' = Inr example_points
   \<and> length (point_rows (slice_upto 2 example_points)) = 2
   \<and> (\<forall>draws r. generate example_world (example_index ''pointcloud'') 1 (Some [JStr ''ABC123'']) draws \<noteq> Yielded r)
   \<and> generate example_world (example_index ''pointcloud'') 1 (Some [JStr ''ABC123'']) [0, 0, 0, 0] = Starved"
proof -
  let ?g = "example_index ''pointcloud''"
  have a: "input_type ?g = ''pointcloud''" by (simp add: example_index_def)
  have b: "pointcloud_cache ?g = Map.empty" by (simp add: example_index_def)
  have c: "(0 :: int) < 1" by simp
  have d: "map_of (qrcodes_dictionary ?g) (JStr ''ABC123'')
       = Some ([JNum 150, JNum 45],
               [''data/storage/person/ABC123/measurements/1.jpg''],
               [''data/storage/person/ABC123/measurements/1.pcd'',
                ''data/storage/person/ABC123/measurements/2.pcd''])"
    by (simp add: example_index_def)
  have e: "read_points example_world ''data/storage/person/ABC123/measurements/1.pcd'' = Inr example_points"
    by (simp add: example_world_def)
  have f: "length (point_rows (slice_upto 2 example_points)) = 2"
    by (simp add: slice_upto_def example_points_def)
  have g: "\<forall>draws r. generate example_world ?g 1 (Some [JStr ''ABC123'']) draws \<noteq> Yielded r"
    using generate_pointcloud_never_yields [OF a b c] by blast
  have h: "generate example_world ?g 1 (Some [JStr ''ABC123'']) [0, 0, 0, 0] = Starved"
    by (simp add: generate_def batch_loop.simps choice_def example_index_def load_pointcloud_def
        example_world_def global_name_pointcloud_target_size)
  from a b c d e f g h show ?thesis by blast
qed

subsection \<open>What the operations change\<close>

text \<open>
  Every operation on a constructed index leaves all of it as it was except the voxel-grid
  cache; the constructor leaves the three caches empty.
\<close>

lemma load_pointcloud_frame:
  "load_pointcloud w self p = Inr (a, self') \<Longrightarrow> \<exists>vc. self' = self\<lparr>voxelgrid_cache := vc\<rparr>"
  by (auto dest!: load_pointcloud_hit intro: exI[of _ "voxelgrid_cache self"])

lemma batch_loop_frame:
  assumes "batch_loop w n qs self xs ys ds = Yielded ((xs', ys'), self', ds')"
  shows "\<exists>vc. self' = self\<lparr>voxelgrid_cache := vc\<rparr>"
proof -
  let ?I = "\<lambda>s (zs :: ndarray list) (ws :: json_value list list). \<exists>vc. s = self\<lparr>voxelgrid_cache := vc\<rparr>"
  have "?I self' xs' ys' \<and> \<not> int (length xs') < n"
  proof (rule batch_loop_Yielded [where I = ?I, OF assms])
    show "?I self xs ys" by (rule exI[of _ "voxelgrid_cache self"]) simp
  qed (auto dest!: load_image_frame load_voxelgrid_frame load_pointcloud_frame)
  then show ?thesis by blast
qed

lemma process_images_frame:
  "process_images w q t ps self l = Inr (self', l') \<Longrightarrow> \<exists>vc. self' = self\<lparr>voxelgrid_cache := vc\<rparr>"
proof (induction ps arbitrary: self l)
  case Nil
  then show ?case by (auto intro: exI[of _ "voxelgrid_cache self"])
next
  case (Cons p ps)
  then show ?case
    by (fastforce split: sum.splits dest!: load_image_frame)
qed

lemma process_voxelgrids_frame:
  "process_voxelgrids w q t ps self l = Inr (self', l') \<Longrightarrow> \<exists>vc. self' = self\<lparr>voxelgrid_cache := vc\<rparr>"
proof (induction ps arbitrary: self l)
  case Nil
  then show ?case by (auto intro: exI[of _ "voxelgrid_cache self"])
next
  case (Cons p ps)
  then show ?case
    by (fastforce split: sum.splits option.splits dest!: load_voxelgrid_frame)
qed

lemma process_pointclouds_frame:
  "process_pointclouds w q t ps self l = Inr (self', l') \<Longrightarrow> \<exists>vc. self' = self\<lparr>voxelgrid_cache := vc\<rparr>"
proof (induction ps arbitrary: self l)
  case Nil
  then show ?case by (auto intro: exI[of _ "voxelgrid_cache self"])
next
  case (Cons p ps)
  then show ?case
    by (fastforce split: sum.splits dest!: load_pointcloud_frame)
qed

lemma generate_dataset_loop_frame:
  "generate_dataset_loop w qs self l = Inr (self', l') \<Longrightarrow> \<exists>vc. self' = self\<lparr>voxelgrid_cache := vc\<rparr>"
proof (induction qs arbitrary: self l)
  case Nil
  then show ?case by (auto intro: exI[of _ "voxelgrid_cache self"])
next
  case (Cons q qs)
  show ?case
  proof (cases "map_of (qrcodes_dictionary self) q")
    case None
    with Cons show ?thesis by simp
  next
    case (Some entry)
    obtain t jp pp where entry: "entry = (t, jp, pp)" by (cases entry) auto
    from Cons.prems Some entry obtain s1 l1 where
      step: "(if input_type self = ''image'' then process_images w q t jp self l
              else if input_type self = ''voxelgrid'' then process_voxelgrids w q t pp self l
              else if input_type self = ''pointcloud'' then process_pointclouds w q t pp self l
              else Inl raise_unknown_input_type) = Inr (s1, l1)"
      and rest: "generate_dataset_loop w qs s1 l1 = Inr (self', l')"
      by (auto split: sum.splits)
    from step obtain vc1 where s1: "s1 = self\<lparr>voxelgrid_cache := vc1\<rparr>"
      by (auto split: if_splits dest!: process_images_frame process_voxelgrids_frame process_pointclouds_frame)
    from Cons.IH [OF rest] obtain vc2 where "self' = s1\<lparr>voxelgrid_cache := vc2\<rparr>" by blast
    with s1 have "self' = self\<lparr>voxelgrid_cache := vc2\<rparr>" by simp
    then show ?thesis by blast
  qed
qed

lemma init_caches_empty:
  assumes "init w dp it ot its vts pts = Inr self"
  shows "image_cache self = Map.empty \<and> voxelgrid_cache self = Map.empty \<and> pointcloud_cache self = Map.empty"
  using assms
  by (auto simp: init_def Let_def get_paths_def find_qrcodes_def create_qrcodes_dictionary_def
      split: if_splits sum.splits)

subsection \<open>Calling a loader twice\<close>

text \<open>
  C2. The claim is that the second call of a loader on a path is a cache hit that returns
  the array decoded by the first. The image loader reads \<open>image_cache\<close> and stores into
  \<open>voxelgrid_cache\<close>: after a first call that missed, the path is still absent from the
  image cache and the second call returns whatever the decoder returns at that moment. In
  the example the file changes between the calls and the second call returns the new
  pixels. (The raw point-cloud loader returns nothing to compare, see C1.)
\<close>

theorem load_image_decodes_again:
  assumes "image_cache self image_path = None"
    and "load_image w self image_path = Inr (a, self')"
  shows "decode_image w image_path (image_target_shape self) = Inr a
     \<and> image_cache self' image_path = None
     \<and> load_image w' self' image_path =
         (case decode_image w' image_path (image_target_shape self) of
            Inl e \<Rightarrow> Inl e
          | Inr b \<Rightarrow> Inr (b, self'\<lparr>voxelgrid_cache := (voxelgrid_cache self')(image_path \<mapsto> b)\<rparr>))"
  using assms by (auto simp: load_image_def split: sum.splits)

theorem load_image_decodes_again_witness:
  "image_cache (example_index ''image'') ''data/storage/person/ABC123/measurements/1.jpg'' = None
   \<and> load_image example_world (example_index ''image'')
         ''data/storage/person/ABC123/measurements/1.jpg''
       = Inr (NDArray [1, 2, 3] [0, 0, 0, 0, 0, 0],
              (example_index ''image'')
                \<lparr>voxelgrid_cache := [''data/storage/person/ABC123/measurements/1.jpg'' \<mapsto>
                                       NDArray [1, 2, 3] [0, 0, 0, 0, 0, 0]]\<rparr>)
   \<and> load_image (example_world\<lparr>decode_image := \<lambda>path target. Inr (blank_image target 255)\<rparr>)
         ((example_index ''image'')
            \<lparr>voxelgrid_cache := [''data/storage/person/ABC123/measurements/1.jpg'' \<mapsto>
                                   NDArray [1, 2, 3] [0, 0, 0, 0, 0, 0]]\<rparr>)
         ''data/storage/person/ABC123/measurements/1.jpg''
       = Inr (NDArray [1, 2, 3] [255, 255, 255, 255, 255, 255],
              (example_index ''image'')
                \<lparr>voxelgrid_cache := [''data/storage/person/ABC123/measurements/1.jpg'' \<mapsto>
                                       NDArray [1, 2, 3] [255, 255, 255, 255, 255, 255]]\<rparr>)"
proof -
  let ?p = "''data/storage/person/ABC123/measurements/1.jpg''"
  let ?g = "example_index ''image''"
  let ?a = "NDArray [1, 2, 3] [0, 0, 0, 0, 0, 0]"
  let ?b = "NDArray [1, 2, 3] [255, 255, 255, 255, 255, 255]"
  let ?w' = "example_world\<lparr>decode_image := \<lambda>path target. Inr (blank_image target 255)\<rparr>"
  have miss: "image_cache ?g ?p = None" by (simp add: example_index_def)
  have first: "load_image example_world ?g ?p = Inr (?a, ?g\<lparr>voxelgrid_cache := [?p \<mapsto> ?a]\<rparr>)"
    by (simp add: load_image_def example_index_def example_world_def blank_image_def eval_nat_numeral)
  have dec: "decode_image ?w' ?p (image_target_shape ?g) = Inr ?b"
    by (simp add: example_index_def blank_image_def eval_nat_numeral)
  from load_image_decodes_again [OF miss first, of ?w'] dec
  have second: "load_image ?w' (?g\<lparr>voxelgrid_cache := [?p \<mapsto> ?a]\<rparr>) ?p
       = Inr (?b, ?g\<lparr>voxelgrid_cache := [?p \<mapsto> ?b]\<rparr>)"
    by simp
  from miss first second show ?thesis by blast
qed

subsection \<open>Rows of the materializer\<close>

text \<open>
  C3. The claim is that a file whose decode raises contributes no row. The point-cloud
  branch of \<open>generate_dataset\<close> leaves the iteration in its \<open>except\<close> clause; the
  voxel-grid branch does not. In the example the second scan cannot be decoded and the
  voxel-grid materializer still returns two rows, the second holding the grid of the first
  scan; when the failing scan comes first the call ends in \<open>UnboundLocalError\<close>.
\<close>

theorem generate_dataset_voxelgrid_row_after_failed_decode:
  "decode_voxelgrid example_world ''data/storage/person/ABC123/measurements/2.pcd'' [2, 1, 1]
     = Inl (External ''data/storage/person/ABC123/measurements/2.pcd'')
   \<and> (\<exists>self'. generate_dataset example_world (example_index ''voxelgrid'') None
         = Inr (([JStr ''ABC123'', JStr ''ABC123''],
                 [NDArray [2, 1, 1] [0, 0], NDArray [2, 1, 1] [0, 0]],
                 [[JNum 150, JNum 45], [JNum 150, JNum 45]]), self'))
   \<and> generate_dataset example_world
         ((example_index ''voxelgrid'')
            \<lparr>qrcodes_dictionary :=
               [(JStr ''ABC123'', [JNum 150, JNum 45], [],
                 [''data/storage/person/ABC123/measurements/2.pcd''])]\<rparr>) None
       = Inl (UnboundLocalError ''voxelgrid'')"
  by (simp add: generate_dataset_def example_index_def example_world_def load_voxelgrid_def
      blank_voxelgrid_def append_row_def eval_nat_numeral)

subsection \<open>The image cache\<close>

text \<open>
  C9. The constructor leaves the image cache empty. On an index whose image cache is empty,
  a successful call of the image loader returns the array decoded from the file, stores it
  in the voxel-grid cache under the image path and leaves the image cache empty; so do the
  other loaders, the generator and the materializer. The image cache is therefore empty at
  every moment of the index's life and every image load decodes afresh.
\<close>

theorem image_cache_stays_empty:
  "(init w dp it ot its vts pts = Inr self \<longrightarrow> image_cache self = Map.empty)
   \<and> (image_cache self = Map.empty \<longrightarrow>
        (\<forall>p a self'. load_image w self p = Inr (a, self') \<longrightarrow>
            decode_image w p (image_target_shape self) = Inr a
            \<and> image_cache self' = Map.empty
            \<and> voxelgrid_cache self' = (voxelgrid_cache self)(p \<mapsto> a))
      \<and> (\<forall>p a self'. load_voxelgrid w self p = Inr (a, self') \<longrightarrow> image_cache self' = Map.empty)
      \<and> (\<forall>p a self'. load_pointcloud w self p = Inr (a, self') \<longrightarrow> image_cache self' = Map.empty)
      \<and> (\<forall>n qs ds b self' ds'. generate w self n qs ds = Yielded (b, self', ds') \<longrightarrow>
            image_cache self' = Map.empty)
      \<and> (\<forall>qs r self'. generate_dataset w self qs = Inr (r, self') \<longrightarrow>
            image_cache self' = Map.empty))"
proof -
  have i: "init w dp it ot its vts pts = Inr self \<longrightarrow> image_cache self = Map.empty"
    using init_caches_empty by blast
  have "image_cache self' = Map.empty \<and> decode_image w p (image_target_shape self) = Inr a
        \<and> voxelgrid_cache self' = (voxelgrid_cache self)(p \<mapsto> a)"
    if "image_cache self = Map.empty" "load_image w self p = Inr (a, self')" for p a self'
    using that by (auto simp: load_image_def split: sum.splits)
  moreover have "image_cache self' = Map.empty"
    if "image_cache self = Map.empty" "load_voxelgrid w self p = Inr (a, self')" for p a self'
    using that by (auto dest!: load_voxelgrid_frame)
  moreover have "image_cache self' = Map.empty"
    if "image_cache self = Map.empty" "load_pointcloud w self p = Inr (a, self')" for p a self'
    using that by (auto dest!: load_pointcloud_frame)
  moreover have "image_cache self' = Map.empty"
    if "image_cache self = Map.empty" "generate w self n qs ds = Yielded (b, self', ds')"
    for n qs ds b self' ds'
  proof -
    obtain xs ys where "b = (xs, ys)" by (cases b) auto
    with that(2) obtain vc where "self' = self\<lparr>voxelgrid_cache := vc\<rparr>"
      unfolding generate_def by (auto dest!: batch_loop_frame)
    with that(1) show ?thesis by simp
  qed
  moreover have "image_cache self' = Map.empty"
    if "image_cache self = Map.empty" "generate_dataset w self qs = Inr (r, self')" for qs r self'
    using that
    by (auto simp: generate_dataset_def split: sum.splits dest!: generate_dataset_loop_frame)
  ultimately show ?thesis using i by blast
qed

theorem image_cache_stays_empty_witness:
  "init example_world ''data'' ''image'' [''height'', ''weight''] [2, 1] [2, 1, 1] 2
     = Inr (example_index ''image'')
   \<and> image_cache (example_index ''image'') = Map.empty
   \<and> load_image example_world (example_index ''image'')
         ''data/storage/person/ABC123/measurements/1.jpg''
       = Inr (NDArray [1, 2, 3] [0, 0, 0, 0, 0, 0],
              (example_index ''image'')
                \<lparr>voxelgrid_cache := [''data/storage/person/ABC123/measurements/1.jpg'' \<mapsto>
                                       NDArray [1, 2, 3] [0, 0, 0, 0, 0, 0]]\<rparr>)
   \<and> decode_image example_world ''data/storage/person/ABC123/measurements/1.jpg''
         (image_target_shape (example_index ''image'')) = Inr (NDArray [1, 2, 3] [0, 0, 0, 0, 0, 0])
   \<and> image_cache ((example_index ''image'')
                \<lparr>voxelgrid_cache := [''data/storage/person/ABC123/measurements/1.jpg'' \<mapsto>
                                       NDArray [1, 2, 3] [0, 0, 0, 0, 0, 0]]\<rparr>) = Map.empty
   \<and> voxelgrid_cache ((example_index ''image'')
                \<lparr>voxelgrid_cache := [''data/storage/person/ABC123/measurements/1.jpg'' \<mapsto>
                                       NDArray [1, 2, 3] [0, 0, 0, 0, 0, 0]]\<rparr>)
       = (voxelgrid_cache (example_index ''image''))
           (''data/storage/person/ABC123/measurements/1.jpg'' \<mapsto> NDArray [1, 2, 3] [0, 0, 0, 0, 0, 0])"
proof -
  let ?p = "''data/storage/person/ABC123/measurements/1.jpg''"
  let ?g = "example_index ''image''"
  let ?a = "NDArray [1, 2, 3] [0, 0, 0, 0, 0, 0]"
  let ?s1 = "?g\<lparr>voxelgrid_cache := [?p \<mapsto> ?a]\<rparr>"
  note t = image_cache_stays_empty [of example_world "''data''" "''image''"
      "[''height'', ''weight'']" "[2, 1]" "[2, 1, 1]" 2 ?g]
  have i: "init example_world ''data'' ''image'' [''height'', ''weight''] [2, 1] [2, 1, 1] 2 = Inr ?g"
    by (rule init_example)
  with t have e: "image_cache ?g = Map.empty" by blast
  have first: "load_image example_world ?g ?p = Inr (?a, ?s1)"
    by (simp add: load_image_def example_index_def example_world_def blank_image_def eval_nat_numeral)
  from t e first have r: "decode_image example_world ?p (image_target_shape ?g) = Inr ?a
      \<and> image_cache ?s1 = Map.empty \<and> voxelgrid_cache ?s1 = (voxelgrid_cache ?g)(?p \<mapsto> ?a)"
    by blast
  from i e first r show ?thesis by blast
qed

subsection \<open>The reported input shape\<close>

lemma generate_image_rows:
  assumes y: "generate w self n qs ds = Yielded ((xs, ys), self', ds')"
    and it: "input_type self = ''image''"
    and c: "image_decoder_contract w"
    and e: "image_cache self = Map.empty"
    and t: "image_target_shape self = [a, b]"
  shows "\<forall>x\<in>set xs. shape x = [b, a, 3]"
proof -
  let ?I = "\<lambda>s (zs :: ndarray list) (ws :: json_value list list).
              (\<exists>vc. s = self\<lparr>voxelgrid_cache := vc\<rparr>) \<and> (\<forall>x\<in>set zs. shape x = [b, a, 3])"
  have "?I self' xs ys \<and> \<not> int (length xs) < n"
  proof (rule batch_loop_Yielded [where I = ?I, OF y [unfolded generate_def]])
    show "?I self [] []" by (auto intro: exI[of _ "voxelgrid_cache self"])
  next
    fix s zs ws p x s2 tg
    assume I: "?I s zs ws" and ld: "load_image w s p = Inr (x, s2)"
    from I obtain vc where s: "s = self\<lparr>voxelgrid_cache := vc\<rparr>" by blast
    from ld s e t have "decode_image w p [a, b] = Inr x"
      by (auto simp: load_image_def split: sum.splits)
    with c have "shape x = [b, a, 3]" by (auto simp: image_decoder_contract_def)
    moreover from ld obtain vc2 where "s2 = s\<lparr>voxelgrid_cache := vc2\<rparr>"
      by (auto dest!: load_image_frame)
    with s have "s2 = self\<lparr>voxelgrid_cache := vc2\<rparr>" by simp
    ultimately show "?I s2 (zs @ [x]) (ws @ [tg])" using I by auto
  next
    fix s zs ws p x s2 tg
    assume "?I s zs ws" and "input_type s = ''voxelgrid''"
    with it show "?I s2 (zs @ [x]) (ws @ [tg])" by auto
  next
    fix s zs ws p x s2 tg
    assume "?I s zs ws" and "input_type s = ''pointcloud''"
    with it show "?I s2 (zs @ [x]) (ws @ [tg])" by auto
  qed
  then show ?thesis by blast
qed

lemma generate_voxelgrid_rows:
  assumes y: "generate w self n qs ds = Yielded ((xs, ys), self', ds')"
    and it: "input_type self = ''voxelgrid''"
    and c: "voxelgrid_decoder_contract w"
    and e: "voxelgrid_cache self = Map.empty"
  shows "\<forall>x\<in>set xs. shape x = voxelgrid_target_shape self"
proof -
  let ?t = "voxelgrid_target_shape self"
  let ?I = "\<lambda>s (zs :: ndarray list) (ws :: json_value list list).
              (\<exists>vc. s = self\<lparr>voxelgrid_cache := vc\<rparr>)
              \<and> (\<forall>p arr. voxelgrid_cache s p = Some arr \<longrightarrow> shape arr = ?t)
              \<and> (\<forall>x\<in>set zs. shape x = ?t)"
  have "?I self' xs ys \<and> \<not> int (length xs) < n"
  proof (rule batch_loop_Yielded [where I = ?I, OF y [unfolded generate_def]])
    show "?I self [] []" using e by (auto intro: exI[of _ "voxelgrid_cache self"])
  next
    fix s zs ws p x s2 tg
    assume "?I s zs ws" and "input_type s = ''image''"
    with it show "?I s2 (zs @ [x]) (ws @ [tg])" by auto
  next
    fix s zs ws p x s2 tg
    assume I: "?I s zs ws" and ld: "load_voxelgrid w s p = Inr (x, s2)"
    from I obtain vc where s: "s = self\<lparr>voxelgrid_cache := vc\<rparr>" by blast
    from I have cached: "\<And>p arr. voxelgrid_cache s p = Some arr \<Longrightarrow> shape arr = ?t" by blast
    have x: "shape x = ?t"
    proof (cases "voxelgrid_cache s p")
      case None
      with ld s have "decode_voxelgrid w p ?t = Inr x"
        by (auto simp: load_voxelgrid_def split: sum.splits)
      with c show ?thesis by (auto simp: voxelgrid_decoder_contract_def)
    next
      case (Some arr)
      with ld have "x = arr" by (simp add: load_voxelgrid_def)
      with cached Some show ?thesis by simp
    qed
    from ld have s2: "s2 = s \<or> s2 = s\<lparr>voxelgrid_cache := (voxelgrid_cache s)(p \<mapsto> x)\<rparr>"
      by (auto simp: load_voxelgrid_def split: option.splits sum.splits)
    then have c2: "\<forall>p arr. voxelgrid_cache s2 p = Some arr \<longrightarrow> shape arr = ?t"
      using cached x by (auto split: if_splits)
    from s2 s have "\<exists>vc. s2 = self\<lparr>voxelgrid_cache := vc\<rparr>" by auto
    with c2 x I show "?I s2 (zs @ [x]) (ws @ [tg])" by auto
  next
    fix s zs ws p x s2 tg
    assume "?I s zs ws" and "input_type s = ''pointcloud''"
    with it show "?I s2 (zs @ [x]) (ws @ [tg])" by auto
  qed
  then show ?thesis by blast
qed

lemma generate_pointcloud_rows:
  assumes y: "generate w self n qs ds = Yielded ((xs, ys), self', ds')"
    and it: "input_type self = ''pointcloud''"
    and e: "pointcloud_cache self = Map.empty"
  shows "xs = []"
proof (rule ccontr)
  assume ne: "xs \<noteq> []"
  have "0 < n"
  proof (rule ccontr)
    assume "\<not> 0 < n"
    with y have "xs = []" by (simp add: generate_def batch_loop.simps)
    with ne show False by simp
  qed
  then have "int (length ([] :: ndarray list)) < n" by simp
  from batch_loop_pointcloud_never_yields [OF it e this] y show False
    unfolding generate_def by blast
qed

lemma example_world_image_contract: "image_decoder_contract example_world"
  by (auto simp: image_decoder_contract_def example_world_def blank_image_def split: if_splits)

lemma example_world_voxelgrid_contract: "voxelgrid_decoder_contract example_world"
  by (auto simp: voxelgrid_decoder_contract_def example_world_def blank_voxelgrid_def split: if_splits)

text \<open>
  C10. \<open>get_input_shape\<close> returns \<open>(90, 160, 3)\<close>, \<open>(32, 32, 32)\<close> or \<open>(32000, 4)\<close>
  by the selector alone, whatever target shapes the index was built with. With decoders that
  behave as documented, every row of a batch the generator yields has the shape the targets
  give it: \<open>(b, a, 3)\<close> for an image target \<open>(a, b)\<close> and the grid's dimensions for a
  voxel grid. For a target other than the default the reported shape is therefore not the
  shape of any yielded row. With the point-cloud selector a yielded batch has no rows.
\<close>

theorem get_input_shape_constant:
  "(input_type self = ''image'' \<longrightarrow> get_input_shape self = Inr [90, 160, 3])
   \<and> (input_type self = ''voxelgrid'' \<longrightarrow> get_input_shape self = Inr [32, 32, 32])
   \<and> (input_type self = ''pointcloud'' \<longrightarrow> get_input_shape self = Inr [32000, 4])
   \<and> get_input_shape (self\<lparr>image_target_shape := its, voxelgrid_target_shape := vts,
                            pointcloud_target_size := pts\<rparr>) = get_input_shape self
   \<and> (input_type self = ''image'' \<and> image_decoder_contract w \<and> image_cache self = Map.empty
        \<and> image_target_shape self = [a, b] \<and> [a, b] \<noteq> [160, 90]
        \<and> generate w self n qs ds = Yielded ((xs, ys), self', ds') \<longrightarrow>
      (\<forall>x\<in>set xs. shape x = [b, a, 3] \<and> get_input_shape self \<noteq> Inr (shape x)))
   \<and> (input_type self = ''voxelgrid'' \<and> voxelgrid_decoder_contract w
        \<and> voxelgrid_cache self = Map.empty \<and> voxelgrid_target_shape self \<noteq> [32, 32, 32]
        \<and> generate w self n qs ds = Yielded ((xs, ys), self', ds') \<longrightarrow>
      (\<forall>x\<in>set xs. shape x = voxelgrid_target_shape self
                    \<and> get_input_shape self \<noteq> Inr (shape x)))
   \<and> (input_type self = ''pointcloud'' \<and> pointcloud_cache self = Map.empty
        \<and> generate w self n qs ds = Yielded ((xs, ys), self', ds') \<longrightarrow> xs = [])"
proof -
  have 1: "input_type self = ''image'' \<longrightarrow> get_input_shape self = Inr [90, 160, 3]"
    by (simp add: get_input_shape_def)
  have 2: "input_type self = ''voxelgrid'' \<longrightarrow> get_input_shape self = Inr [32, 32, 32]"
    by (simp add: get_input_shape_def)
  have 3: "input_type self = ''pointcloud'' \<longrightarrow> get_input_shape self = Inr [32000, 4]"
    by (simp add: get_input_shape_def)
  have 4: "get_input_shape (self\<lparr>image_target_shape := its, voxelgrid_target_shape := vts,
                            pointcloud_target_size := pts\<rparr>) = get_input_shape self"
    by (simp add: get_input_shape_def)
  have 5: "\<forall>x\<in>set xs. shape x = [b, a, 3] \<and> get_input_shape self \<noteq> Inr (shape x)"
    if "input_type self = ''image''" "image_decoder_contract w" "image_cache self = Map.empty"
      "image_target_shape self = [a, b]" "[a, b] \<noteq> [160, 90]"
      "generate w self n qs ds = Yielded ((xs, ys), self', ds')"
    using generate_image_rows [OF that(6) that(1) that(2) that(3) that(4)] that(1,5)
    by (auto simp: get_input_shape_def)
  have 6: "\<forall>x\<in>set xs. shape x = voxelgrid_target_shape self \<and> get_input_shape self \<noteq> Inr (shape x)"
    if "input_type self = ''voxelgrid''" "voxelgrid_decoder_contract w"
      "voxelgrid_cache self = Map.empty" "voxelgrid_target_shape self \<noteq> [32, 32, 32]"
      "generate w self n qs ds = Yielded ((xs, ys), self', ds')"
    using generate_voxelgrid_rows [OF that(5) that(1) that(2) that(3)] that(1,4)
    by (auto simp: get_input_shape_def)
  have 7: "xs = []"
    if "input_type self = ''pointcloud''" "pointcloud_cache self = Map.empty"
      "generate w self n qs ds = Yielded ((xs, ys), self', ds')"
    using generate_pointcloud_rows [OF that(3) that(1) that(2)] .
  from 1 2 3 4 5 6 7 show ?thesis by blast
qed

theorem get_input_shape_constant_witness:
  "get_input_shape (example_index ''image'') = Inr [90, 160, 3]
   \<and> get_input_shape (example_index ''voxelgrid'') = Inr [32, 32, 32]
   \<and> get_input_shape (example_index ''pointcloud'') = Inr [32000, 4]
   \<and> image_target_shape (example_index ''image'') = [2, 1]
   \<and> image_decoder_contract example_world
   \<and> (\<exists>self'. generate example_world (example_index ''image'') 2 None [0, 0, 0, 0]
         = Yielded (([NDArray [1, 2, 3] [0, 0, 0, 0, 0, 0], NDArray [1, 2, 3] [0, 0, 0, 0, 0, 0]],
                     [[JNum 150, JNum 45], [JNum 150, JNum 45]]), self', []))
   \<and> get_input_shape (example_index ''image'') \<noteq> Inr (shape (NDArray [1, 2, 3] [0, 0, 0, 0, 0, 0]))
   \<and> voxelgrid_target_shape (example_index ''voxelgrid'') = [2, 1, 1]
   \<and> voxelgrid_decoder_contract example_world
   \<and> (\<exists>self'. generate example_world (example_index ''voxelgrid'') 1 None [0, 0]
         = Yielded (([NDArray [2, 1, 1] [0, 0]], [[JNum 150, JNum 45]]), self', []))
   \<and> get_input_shape (example_index ''voxelgrid'') \<noteq> Inr (shape (NDArray [2, 1, 1] [0, 0]))
   \<and> (\<exists>self'. generate example_world (example_index ''pointcloud'') 0 None [0, 0]
         = Yielded (([], []), self', [0, 0]))"
proof -
  let ?gi = "example_index ''image''"
  let ?gv = "example_index ''voxelgrid''"
  let ?gp = "example_index ''pointcloud''"
  let ?img = "NDArray [1, 2, 3] [0, 0, 0, 0, 0, 0]"
  let ?vox = "NDArray [2, 1, 1] [0, 0]"
  have ti: "input_type ?gi = ''image''" and tv: "input_type ?gv = ''voxelgrid''"
    and tp: "input_type ?gp = ''pointcloud''"
    by (simp_all add: example_index_def)
  note t = get_input_shape_constant
  from t [of ?gi] ti have s1: "get_input_shape ?gi = Inr [90, 160, 3]" by blast
  from t [of ?gv] tv have s2: "get_input_shape ?gv = Inr [32, 32, 32]" by blast
  from t [of ?gp] tp have s3: "get_input_shape ?gp = Inr [32000, 4]" by blast
  have its: "image_target_shape ?gi = [2, 1]" and vts: "voxelgrid_target_shape ?gv = [2, 1, 1]"
    by (simp_all add: example_index_def)
  have ci: "image_cache ?gi = Map.empty" and cv: "voxelgrid_cache ?gv = Map.empty"
    and cp: "pointcloud_cache ?gp = Map.empty"
    by (simp_all add: example_index_def)
  have gi: "\<exists>self'. generate example_world ?gi 2 None [0, 0, 0, 0]
         = Yielded (([?img, ?img], [[JNum 150, JNum 45], [JNum 150, JNum 45]]), self', [])"
    by (simp add: generate_def batch_loop.simps choice_def example_index_def load_image_def
        example_world_def blank_image_def eval_nat_numeral)
  have gv: "\<exists>self'. generate example_world ?gv 1 None [0, 0]
         = Yielded (([?vox], [[JNum 150, JNum 45]]), self', [])"
    by (simp add: generate_def batch_loop.simps choice_def example_index_def load_voxelgrid_def
        example_world_def blank_voxelgrid_def eval_nat_numeral)
  have gp: "\<exists>self'. generate example_world ?gp 0 None [0, 0] = Yielded (([], []), self', [0, 0])"
    by (simp add: generate_def batch_loop.simps)
  from gi obtain si where gi': "generate example_world ?gi 2 None [0, 0, 0, 0]
         = Yielded (([?img, ?img], [[JNum 150, JNum 45], [JNum 150, JNum 45]]), si, [])" by blast
  have ne: "[2, 1] \<noteq> [160, 90 :: nat]" by simp
  from t [of ?gi _ _ _ example_world 2 1 2 None "[0, 0, 0, 0]" "[?img, ?img]" _ si "[]"]
    ti example_world_image_contract ci its ne gi'
  have d1: "get_input_shape ?gi \<noteq> Inr (shape ?img)" by simp
  from gv obtain sv where gv': "generate example_world ?gv 1 None [0, 0]
         = Yielded (([?vox], [[JNum 150, JNum 45]]), sv, [])" by blast
  from t [of ?gv _ _ _ example_world _ _ 1 None "[0, 0]" "[?vox]" _ sv "[]"]
    tv example_world_voxelgrid_contract cv vts gv'
  have d2: "get_input_shape ?gv \<noteq> Inr (shape ?vox)" by simp
  from s1 s2 s3 its example_world_image_contract gi d1 vts example_world_voxelgrid_contract gv d2 gp
  show ?thesis by blast
qed

subsection \<open>Construction of the index\<close>

lemma extract_qrcode_cong:
  "json_paths_personal s1 = json_paths_personal s2 \<Longrightarrow> extract_qrcode w s1 m = extract_qrcode w s2 m"
  by (simp add: extract_qrcode_def cong: sum.case_cong)

lemma find_qrcodes_loop_ids:
  "find_qrcodes_loop w self found paths = Inr qs \<Longrightarrow>
     \<exists>ids. qs = found @ ids \<and>
       list_all2 (\<lambda>path q. \<exists>m. load_json w path = Inr m \<and> extract_qrcode w self m = Inr q) paths ids"
proof (induction paths arbitrary: found)
  case Nil
  then show ?case by simp
next
  case (Cons p ps)
  from Cons.prems obtain m q where m: "load_json w p = Inr m"
    and q: "extract_qrcode w self m = Inr q"
    and rest: "find_qrcodes_loop w self (found @ [q]) ps = Inr qs"
    by (auto split: sum.splits)
  from Cons.IH [OF rest] obtain ids where ids: "qs = (found @ [q]) @ ids"
    and all: "list_all2 (\<lambda>path q. \<exists>m. load_json w path = Inr m \<and> extract_qrcode w self m = Inr q) ps ids"
    by blast
  from ids have "qs = found @ (q # ids)" by simp
  moreover from m q all
  have "list_all2 (\<lambda>path q. \<exists>m. load_json w path = Inr m \<and> extract_qrcode w self m = Inr q)
          (p # ps) (q # ids)"
    by auto
  ultimately show ?case by blast
qed

lemma sorted_wrt_py_le_JStr: "sorted_wrt py_le (map JStr ss) = sorted ss"
  by (induction ss) auto

lemma sorted_wrt_py_le_JNum: "sorted_wrt py_le (map JNum ns) = sorted ns"
  by (induction ns) auto

lemma map_JStr_the_str: "list_all is_JStr vs \<Longrightarrow> map (JStr \<circ> the_str) vs = vs"
  by (induction vs) auto

lemma map_JNum_the_num: "list_all is_JNum vs \<Longrightarrow> map (JNum \<circ> the_num) vs = vs"
  by (induction vs) auto

lemma py_sorted_props:
  assumes "py_sorted vs = Inr s"
  shows "set s = set vs \<and> sorted_wrt py_le s \<and> (distinct vs \<longrightarrow> distinct s)"
proof (cases "list_all is_JStr vs")
  case True
  with assms have s: "s = map JStr (sort (map the_str vs))" by (simp add: py_sorted_def)
  have "set s = JStr ` the_str ` set vs" by (simp add: s)
  also have "\<dots> = set (map (JStr \<circ> the_str) vs)" by (simp add: image_comp)
  also have "\<dots> = set vs" using True by (simp only: map_JStr_the_str)
  finally have 1: "set s = set vs" .
  have 2: "sorted_wrt py_le s" by (simp add: s sorted_wrt_py_le_JStr)
  have 3: "distinct s" if "distinct vs"
  proof -
    have "inj_on the_str (set vs)"
      using True by (auto simp: inj_on_def list_all_iff) (metis json_value.collapse(1))
    with that have "distinct (map the_str vs)" by (simp add: distinct_map)
    then have "distinct (sort (map the_str vs))" by simp
    then show ?thesis by (simp add: s distinct_map inj_on_def)
  qed
  from 1 2 3 show ?thesis by blast
next
  case False
  with assms have n: "list_all is_JNum vs" and s: "s = map JNum (sort (map the_num vs))"
    by (auto simp: py_sorted_def split: if_splits)
  have "set s = JNum ` the_num ` set vs" by (simp add: s)
  also have "\<dots> = set (map (JNum \<circ> the_num) vs)" by (simp add: image_comp)
  also have "\<dots> = set vs" using n by (simp only: map_JNum_the_num)
  finally have 1: "set s = set vs" .
  have 2: "sorted_wrt py_le s" by (simp add: s sorted_wrt_py_le_JNum)
  have 3: "distinct s" if "distinct vs"
  proof -
    have "inj_on the_num (set vs)"
      using n by (auto simp: inj_on_def list_all_iff) (metis json_value.collapse(2))
    with that have "distinct (map the_num vs)" by (simp add: distinct_map)
    then have "distinct (sort (map the_num vs))" by simp
    then show ?thesis by (simp add: s distinct_map inj_on_def)
  qed
  from 1 2 3 show ?thesis by blast
qed

lemma find_qrcodes_props:
  assumes "find_qrcodes w self = Inr self'"
  shows "(\<exists>ids. list_all2 (\<lambda>path q. \<exists>m. load_json w path = Inr m \<and> extract_qrcode w self m = Inr q)
                  (json_paths_measures self) ids \<and> set (qrcodes self') = set ids)
         \<and> distinct (qrcodes self') \<and> sorted_wrt py_le (qrcodes self')
         \<and> (\<exists>qs. self' = self\<lparr>qrcodes := qs\<rparr>)"
proof -
  from assms obtain found s where f: "find_qrcodes_loop w self [] (json_paths_measures self) = Inr found"
    and s: "py_sorted (remdups found) = Inr s" and self': "self' = self\<lparr>qrcodes := s\<rparr>"
    by (auto simp: find_qrcodes_def split: sum.splits)
  from find_qrcodes_loop_ids [OF f]
  have all: "list_all2 (\<lambda>path q. \<exists>m. load_json w path = Inr m \<and> extract_qrcode w self m = Inr q)
          (json_paths_measures self) found"
    by simp
  from py_sorted_props [OF s] have "set s = set found" "sorted_wrt py_le s" "distinct s"
    by simp_all
  with all self' show ?thesis by auto
qed

lemma init_stages:
  assumes "init w dp it ot its vts pts = Inr self"
  shows "\<exists>s1 s2. find_qrcodes w s1 = Inr s2
           \<and> json_paths_measures s1 = filter (str_in ''measures'') (glob w (path_join dp ''**/*.json''))
           \<and> qrcodes s2 \<noteq> []
           \<and> create_qrcodes_dictionary w s2 = Inr self"
proof -
  from assms obtain s0 s2 where s0: "dataset_path s0 = dp"
    and f: "find_qrcodes w (get_paths w s0) = Inr s2" and ne: "qrcodes s2 \<noteq> []"
    and c: "create_qrcodes_dictionary w s2 = Inr self"
    by (auto simp: init_def Let_def split: if_splits sum.splits intro: data_generator.select_convs)
  have "json_paths_measures (get_paths w s0)
          = filter (str_in ''measures'') (glob w (path_join dp ''**/*.json''))"
    by (simp add: get_paths_def Let_def s0)
  with f ne c show ?thesis by blast
qed

lemma create_qrcodes_dictionary_frame:
  "create_qrcodes_dictionary w s = Inr s' \<Longrightarrow> \<exists>d. s' = s\<lparr>qrcodes_dictionary := d\<rparr>"
  by (auto simp: create_qrcodes_dictionary_def split: sum.splits)

lemma init_survey:
  "init survey_world ''data'' ''image'' [''height'', ''weight''] [2, 1] [2, 1, 1] 2
     = Inr ((example_index ''image'')
              \<lparr>json_paths_measures :=
                 [''data/P2/measures/a.json'', ''data/P1/measures/m.json'', ''data/P1/measures/s.json''],
               qrcodes := [JStr ''ABC123'', JStr ''XYZ789'']\<rparr>)"
  by (simp add: init_def survey_world_def example_world_def example_index_def get_paths_def path_join_def
      find_qrcodes_def extract_qrcode_def field_value_def example_measure_def value_in_def
      py_sorted_def create_qrcodes_dictionary_def extract_targets_def matches_subject_def
      dict_set_def)

lemma init_repeated:
  "init repeated_world ''data'' ''image'' [''height'', ''weight''] [2, 1] [2, 1, 1] 2
     = Inl (Exception ''Multiple manual measurements for QR-code: ABC123'')"
  by (simp add: init_def repeated_world_def survey_world_def example_world_def get_paths_def path_join_def
      find_qrcodes_def extract_qrcode_def field_value_def example_measure_def value_in_def
      py_sorted_def create_qrcodes_dictionary_def extract_targets_def matches_subject_def
      dict_set_def raise_multiple_manual_def)

lemma create_qrcodes_dictionary_loop_keys:
  assumes "create_qrcodes_dictionary_loop w self d paths = Inr d'"
    and "distinct (map fst d)"
  shows "distinct (map fst d') \<and>
         (\<exists>new. map fst d' = map fst d @ new \<and>
            list_all2 (\<lambda>path q. \<exists>m. load_json w path = Inr m \<and> extract_qrcode w self m = Inr q)
              (filter (manual_record w) paths) new)"
  using assms
proof (induction paths arbitrary: d)
  case Nil
  then show ?case by simp
next
  case (Cons p ps)
  from Cons.prems(1) obtain m t where m: "load_json w p = Inr m"
    and t: "field_value m ''type'' = Inr t"
    by (auto split: sum.splits)
  from t have mt: "m ''type'' = Some t"
    by (auto simp: field_value_def split: option.splits)
  show ?case
  proof (cases "t = JStr ''manual''")
    case False
    with Cons.prems(1) m t have rest: "create_qrcodes_dictionary_loop w self d ps = Inr d'"
      by simp
    from False m mt have "\<not> manual_record w p" by (simp add: manual_record_def)
    with Cons.IH [OF rest Cons.prems(2)] show ?thesis by simp
  next
    case True
    with m mt have man: "manual_record w p" by (simp add: manual_record_def)
    from Cons.prems(1) m t True obtain q targets jpgs pcds where
      q: "extract_qrcode w self m = Inr q" and fresh: "q \<notin> set (map fst d)"
      and rest: "create_qrcodes_dictionary_loop w self (dict_set d q (targets, jpgs, pcds)) ps = Inr d'"
      by (auto split: sum.splits if_splits)
    from fresh have ds: "dict_set d q (targets, jpgs, pcds) = d @ [(q, targets, jpgs, pcds)]"
      by (simp add: dict_set_def)
    from fresh Cons.prems(2) have dist: "distinct (map fst (d @ [(q, targets, jpgs, pcds)]))"
      by simp
    from Cons.IH [OF rest [unfolded ds] dist] obtain new where
      d': "distinct (map fst d')"
      and keys: "map fst d' = map fst (d @ [(q, targets, jpgs, pcds)]) @ new"
      and all: "list_all2 (\<lambda>path q. \<exists>m. load_json w path = Inr m \<and> extract_qrcode w self m = Inr q)
                  (filter (manual_record w) ps) new"
      by blast
    from keys have "map fst d' = map fst d @ (q # new)" by simp
    moreover from man m q all
    have "list_all2 (\<lambda>path q. \<exists>m. load_json w path = Inr m \<and> extract_qrcode w self m = Inr q)
            (filter (manual_record w) (p # ps)) (q # new)"
      by auto
    ultimately show ?thesis using d' by blast
  qed
qed

text \<open>
  C7. While the sample dictionary is built, a measurement record whose \<open>type.value\<close> is not
  \<open>manual\<close> is skipped, and a manual record whose subject already has an entry raises the
  exception about multiple manual measurements. A dictionary that is built has pairwise
  different keys, and its keys are, in order, the subjects of the manual records; so has the
  dictionary of every constructed index.
\<close>

theorem qrcodes_dictionary_one_manual_measurement:
  "(load_json w p = Inr m \<and> field_value m ''type'' = Inr t \<and> t \<noteq> JStr ''manual'' \<longrightarrow>
      create_qrcodes_dictionary_loop w self d (p # rest)
        = create_qrcodes_dictionary_loop w self d rest)
   \<and> (load_json w p = Inr m \<and> field_value m ''type'' = Inr (JStr ''manual'')
        \<and> extract_qrcode w self m = Inr (JStr q) \<and> JStr q \<in> set (map fst d) \<longrightarrow>
      create_qrcodes_dictionary_loop w self d (p # rest)
        = Inl (Exception (''Multiple manual measurements for QR-code: '' @ q)))
   \<and> (create_qrcodes_dictionary w self = Inr self' \<longrightarrow>
        distinct (map fst (qrcodes_dictionary self'))
        \<and> list_all2 (\<lambda>path q. \<exists>m. load_json w path = Inr m \<and> extract_qrcode w self m = Inr q)
             (filter (manual_record w) (json_paths_measures self))
             (map fst (qrcodes_dictionary self')))
   \<and> (init w dp it ot its vts pts = Inr g \<longrightarrow> distinct (map fst (qrcodes_dictionary g)))"
proof -
  have a: "create_qrcodes_dictionary_loop w self d (p # rest)
        = create_qrcodes_dictionary_loop w self d rest"
    if "load_json w p = Inr m" "field_value m ''type'' = Inr t" "t \<noteq> JStr ''manual''"
    using that by simp
  have b: "create_qrcodes_dictionary_loop w self d (p # rest)
        = Inl (Exception (''Multiple manual measurements for QR-code: '' @ q))"
    if "load_json w p = Inr m" "field_value m ''type'' = Inr (JStr ''manual'')"
      "extract_qrcode w self m = Inr (JStr q)" "JStr q \<in> set (map fst d)"
    using that by (simp add: raise_multiple_manual_def)
  have c: "distinct (map fst (qrcodes_dictionary s')) 
        \<and> list_all2 (\<lambda>path q. \<exists>m. load_json w path = Inr m \<and> extract_qrcode w s m = Inr q)
             (filter (manual_record w) (json_paths_measures s))
             (map fst (qrcodes_dictionary s'))"
    if "create_qrcodes_dictionary w s = Inr s'" for s s'
  proof -
    from that obtain dict where l: "create_qrcodes_dictionary_loop w s [] (json_paths_measures s) = Inr dict"
      and s': "s' = s\<lparr>qrcodes_dictionary := dict\<rparr>"
      by (auto simp: create_qrcodes_dictionary_def split: sum.splits)
    from create_qrcodes_dictionary_loop_keys [OF l] s' show ?thesis by auto
  qed
  have e: "distinct (map fst (qrcodes_dictionary g))" if i: "init w dp it ot its vts pts = Inr g"
  proof -
    from init_stages [OF i] obtain s2 where "create_qrcodes_dictionary w s2 = Inr g" by blast
    from c [OF this] show ?thesis by blast
  qed
  from a b c [of self self'] e show ?thesis by blast
qed

theorem qrcodes_dictionary_one_manual_measurement_witness:
  "load_json survey_world ''data/P2/measures/a.json''
     = Inr [''type'' \<mapsto> JStr ''scan'', ''personId'' \<mapsto> JStr ''P2'']
   \<and> field_value [''type'' \<mapsto> JStr ''scan'', ''personId'' \<mapsto> JStr ''P2''] ''type'' = Inr (JStr ''scan'')
   \<and> create_qrcodes_dictionary_loop survey_world (example_index ''image'') []
        [''data/P2/measures/a.json'', ''data/P1/measures/m.json'']
      = create_qrcodes_dictionary_loop survey_world (example_index ''image'') []
          [''data/P1/measures/m.json'']
   \<and> load_json repeated_world ''data/P1/measures/s.json'' = Inr example_measure
   \<and> field_value example_measure ''type'' = Inr (JStr ''manual'')
   \<and> extract_qrcode repeated_world (example_index ''image'') example_measure = Inr (JStr ''ABC123'')
   \<and> create_qrcodes_dictionary_loop repeated_world (example_index ''image'')
        (qrcodes_dictionary (example_index ''image'')) [''data/P1/measures/s.json'']
      = Inl (Exception ''Multiple manual measurements for QR-code: ABC123'')
   \<and> init survey_world ''data'' ''image'' [''height'', ''weight''] [2, 1] [2, 1, 1] 2
     = Inr ((example_index ''image'')
              \<lparr>json_paths_measures :=
                 [''data/P2/measures/a.json'', ''data/P1/measures/m.json'', ''data/P1/measures/s.json''],
               qrcodes := [JStr ''ABC123'', JStr ''XYZ789'']\<rparr>)
   \<and> distinct (map fst (qrcodes_dictionary (example_index ''image'')))
   \<and> init repeated_world ''data'' ''image'' [''height'', ''weight''] [2, 1] [2, 1, 1] 2
     = Inl (Exception ''Multiple manual measurements for QR-code: ABC123'')"
proof -
  let ?e = "example_index ''image''"
  let ?g = "?e\<lparr>json_paths_measures :=
                 [''data/P2/measures/a.json'', ''data/P1/measures/m.json'', ''data/P1/measures/s.json''],
               qrcodes := [JStr ''ABC123'', JStr ''XYZ789'']\<rparr>"
  let ?ma = "[''type'' \<mapsto> JStr ''scan'', ''personId'' \<mapsto> JStr ''P2'']"
  have l1: "load_json survey_world ''data/P2/measures/a.json'' = Inr ?ma"
    by (simp add: survey_world_def)
  have t1: "field_value ?ma ''type'' = Inr (JStr ''scan'')" by (simp add: field_value_def)
  have n1: "JStr ''scan'' \<noteq> JStr ''manual''" by simp
  note thm1 = qrcodes_dictionary_one_manual_measurement
      [of survey_world "''data/P2/measures/a.json''" ?ma "JStr ''scan''" ?e "[]"
          "[''data/P1/measures/m.json'']" "''ABC123''" ?e "''data''" "''image''"
          "[''height'', ''weight'']" "[2, 1]" "[2, 1, 1]" 2 ?g]
  from thm1 l1 t1 n1
  have skip: "create_qrcodes_dictionary_loop survey_world ?e []
        [''data/P2/measures/a.json'', ''data/P1/measures/m.json'']
      = create_qrcodes_dictionary_loop survey_world ?e [] [''data/P1/measures/m.json'']"
    by blast
  from thm1 init_survey have "distinct (map fst (qrcodes_dictionary ?g))" by blast
  then have dist: "distinct (map fst (qrcodes_dictionary ?e))" by simp
  have l2: "load_json repeated_world ''data/P1/measures/s.json'' = Inr example_measure"
    by (simp add: repeated_world_def)
  have t2: "field_value example_measure ''type'' = Inr (JStr ''manual'')"
    by (simp add: field_value_def example_measure_def)
  have q2: "extract_qrcode repeated_world ?e example_measure = Inr (JStr ''ABC123'')"
    by (simp add: repeated_world_def survey_world_def example_world_def example_index_def
        extract_qrcode_def field_value_def example_measure_def value_in_def)
  have k2: "JStr ''ABC123'' \<in> set (map fst (qrcodes_dictionary ?e))"
    by (simp add: example_index_def)
  from qrcodes_dictionary_one_manual_measurement
      [of repeated_world "''data/P1/measures/s.json''" example_measure "JStr ''manual''" ?e
          "qrcodes_dictionary ?e" "[]" "''ABC123''"]
    l2 t2 q2 k2
  have dup: "create_qrcodes_dictionary_loop repeated_world ?e (qrcodes_dictionary ?e)
        [''data/P1/measures/s.json'']
      = Inl (Exception ''Multiple manual measurements for QR-code: ABC123'')"
    by simp
  from l1 t1 skip l2 t2 q2 dup init_survey dist init_repeated show ?thesis by blast
qed

text \<open>
  C8. In a constructed index the measurement paths are the JSON paths containing
  \<open>measures\<close>, every one of them yields a subject id, and the subject list holds exactly
  these ids, without repetition and in ascending order (lexicographic on strings). The list
  is not empty; with no measurement record the constructor fails with \<open>No QR-codes found!\<close>
  (a record yields an id or aborts the constructor, so the set of ids is empty only then).
\<close>

theorem init_qrcodes_sorted_distinct:
  "(init w dp it ot its vts pts = Inr self \<longrightarrow>
      json_paths_measures self = filter (str_in ''measures'') (glob w (path_join dp ''**/*.json''))
      \<and> (\<exists>ids. list_all2 (\<lambda>path q. \<exists>m. load_json w path = Inr m \<and> extract_qrcode w self m = Inr q)
                   (json_paths_measures self) ids
                \<and> set (qrcodes self) = set ids)
      \<and> distinct (qrcodes self) \<and> sorted_wrt py_le (qrcodes self) \<and> qrcodes self \<noteq> [])
   \<and> (path_exists w dp \<and> length its = 2 \<and> length vts = 3
        \<and> filter (str_in ''measures'') (glob w (path_join dp ''**/*.json'')) = [] \<longrightarrow>
      init w dp it ot its vts pts = Inl (AssertionError ''No QR-codes found!''))"
proof -
  have a: "json_paths_measures self = filter (str_in ''measures'') (glob w (path_join dp ''**/*.json''))
      \<and> (\<exists>ids. list_all2 (\<lambda>path q. \<exists>m. load_json w path = Inr m \<and> extract_qrcode w self m = Inr q)
                   (json_paths_measures self) ids
                \<and> set (qrcodes self) = set ids)
      \<and> distinct (qrcodes self) \<and> sorted_wrt py_le (qrcodes self) \<and> qrcodes self \<noteq> []"
    if i: "init w dp it ot its vts pts = Inr self"
  proof -
    from init_stages [OF i] obtain s1 s2 where
      f: "find_qrcodes w s1 = Inr s2"
      and m: "json_paths_measures s1 = filter (str_in ''measures'') (glob w (path_join dp ''**/*.json''))"
      and ne: "qrcodes s2 \<noteq> []"
      and c: "create_qrcodes_dictionary w s2 = Inr self"
      by blast
    from find_qrcodes_props [OF f] obtain ids qs where
      all: "list_all2 (\<lambda>path q. \<exists>m. load_json w path = Inr m \<and> extract_qrcode w s1 m = Inr q)
              (json_paths_measures s1) ids"
      and set: "set (qrcodes s2) = set ids"
      and d: "distinct (qrcodes s2)" and s: "sorted_wrt py_le (qrcodes s2)"
      and s2: "s2 = s1\<lparr>qrcodes := qs\<rparr>"
      by blast
    from create_qrcodes_dictionary_frame [OF c] obtain dict where
      self: "self = s2\<lparr>qrcodes_dictionary := dict\<rparr>" by blast
    from self s2 have eqs: "json_paths_measures self = json_paths_measures s1"
      "json_paths_personal s1 = json_paths_personal self" "qrcodes self = qrcodes s2"
      by simp_all
    from extract_qrcode_cong [OF eqs(2)] have "extract_qrcode w s1 = extract_qrcode w self"
      by (intro ext)
    with all eqs(1) have "list_all2 (\<lambda>path q. \<exists>m. load_json w path = Inr m \<and> extract_qrcode w self m = Inr q)
              (json_paths_measures self) ids"
      by simp
    with set eqs m d s ne show ?thesis by auto
  qed
  have b: "init w dp it ot its vts pts = Inl (AssertionError ''No QR-codes found!'')"
    if "path_exists w dp" "length its = 2" "length vts = 3"
      "filter (str_in ''measures'') (glob w (path_join dp ''**/*.json'')) = []"
    using that
    by (simp add: init_def Let_def get_paths_def find_qrcodes_def py_sorted_def)
  from a b show ?thesis by blast
qed

theorem init_qrcodes_sorted_distinct_witness:
  "init survey_world ''data'' ''image'' [''height'', ''weight''] [2, 1] [2, 1, 1] 2
     = Inr ((example_index ''image'')
              \<lparr>json_paths_measures :=
                 [''data/P2/measures/a.json'', ''data/P1/measures/m.json'', ''data/P1/measures/s.json''],
               qrcodes := [JStr ''ABC123'', JStr ''XYZ789'']\<rparr>)
   \<and> map (\<lambda>path. case load_json survey_world path of
                     Inl e \<Rightarrow> Inl e
                   | Inr m \<Rightarrow> extract_qrcode survey_world (example_index ''image'') m)
         [''data/P2/measures/a.json'', ''data/P1/measures/m.json'', ''data/P1/measures/s.json'']
       = [Inr (JStr ''XYZ789''), Inr (JStr ''ABC123''), Inr (JStr ''ABC123'')]
   \<and> distinct [JStr ''ABC123'', JStr ''XYZ789'']
   \<and> sorted_wrt py_le [JStr ''ABC123'', JStr ''XYZ789'']
   \<and> path_exists (survey_world\<lparr>glob := \<lambda>pattern. []\<rparr>) ''data''
   \<and> init (survey_world\<lparr>glob := \<lambda>pattern. []\<rparr>) ''data'' ''image'' [''height'', ''weight'']
         [2, 1] [2, 1, 1] 2
       = Inl (AssertionError ''No QR-codes found!'')"
proof -
  let ?g = "(example_index ''image'')
              \<lparr>json_paths_measures :=
                 [''data/P2/measures/a.json'', ''data/P1/measures/m.json'', ''data/P1/measures/s.json''],
               qrcodes := [JStr ''ABC123'', JStr ''XYZ789'']\<rparr>"
  let ?w0 = "survey_world\<lparr>glob := \<lambda>pattern. []\<rparr>"
  note i = init_survey
  have q: "qrcodes ?g = [JStr ''ABC123'', JStr ''XYZ789'']" by simp
  have x: "map (\<lambda>path. case load_json survey_world path of
                     Inl e \<Rightarrow> Inl e
                   | Inr m \<Rightarrow> extract_qrcode survey_world (example_index ''image'') m)
         [''data/P2/measures/a.json'', ''data/P1/measures/m.json'', ''data/P1/measures/s.json'']
       = [Inr (JStr ''XYZ789''), Inr (JStr ''ABC123''), Inr (JStr ''ABC123'')]"
    by (simp add: survey_world_def example_world_def example_index_def extract_qrcode_def
        field_value_def example_measure_def value_in_def)
  from init_qrcodes_sorted_distinct
         [of survey_world "''data''" "''image''" "[''height'', ''weight'']" "[2, 1]" "[2, 1, 1]" 2 ?g]
       i
  have "distinct (qrcodes ?g) \<and> sorted_wrt py_le (qrcodes ?g)" by blast
  with q have ds: "distinct [JStr ''ABC123'', JStr ''XYZ789'']"
      "sorted_wrt py_le [JStr ''ABC123'', JStr ''XYZ789'']"
    by simp_all
  have pe: "path_exists ?w0 ''data''" by (simp add: survey_world_def example_world_def)
  have em: "filter (str_in ''measures'') (glob ?w0 (path_join ''data'' ''**/*.json'')) = []"
    by simp
  from init_qrcodes_sorted_distinct
         [of ?w0 "''data''" "''image''" "[''height'', ''weight'']" "[2, 1]" "[2, 1, 1]" 2 ?g]
       pe em
  have f: "init ?w0 ''data'' ''image'' [''height'', ''weight''] [2, 1] [2, 1, 1] 2
       = Inl (AssertionError ''No QR-codes found!'')"
    by simp
  from i x ds pe f show ?thesis by blast
qed

subsection \<open>Further properties of the generator and the voxel-grid loader\<close>

lemma generate_rows_count:
  assumes "generate w self n qs ds = Yielded ((xs, ys), self', ds')" and "0 \<le> n"
  shows "int (length xs) = n \<and> length ys = length xs"
proof -
  let ?I = "\<lambda>(s :: data_generator) (zs :: ndarray list) (ws :: json_value list list).
              int (length zs) \<le> n \<and> length ws = length zs"
  have "?I self' xs ys \<and> \<not> int (length xs) < n"
    by (rule batch_loop_Yielded [where I = ?I, OF assms(1) [unfolded generate_def]])
       (use assms(2) in auto)
  then show ?thesis by auto
qed

lemma batch_loop_step_image:
  assumes "int (length xs) < n" and "qs \<noteq> []"
    and "map_of (qrcodes_dictionary self) (choice qs r) = Some (t, jp, pp)"
    and "input_type self = ''image''" and "jp \<noteq> []"
    and "load_image w self (choice jp r') = Inr (x, self2)"
  shows "batch_loop w n qs self xs ys (r # r' # ds) = batch_loop w n qs self2 (xs @ [x]) (ys @ [t]) ds"
  using assms by (subst batch_loop.simps) simp

lemma batch_loop_step_voxelgrid:
  assumes "int (length xs) < n" and "qs \<noteq> []"
    and "map_of (qrcodes_dictionary self) (choice qs r) = Some (t, jp, pp)"
    and "input_type self = ''voxelgrid''" and "pp \<noteq> []"
    and "load_voxelgrid w self (choice pp r') = Inr (x, self2)"
  shows "batch_loop w n qs self xs ys (r # r' # ds) = batch_loop w n qs self2 (xs @ [x]) (ys @ [t]) ds"
  using assms by (subst batch_loop.simps) simp

lemma choice_index: "i < length seq \<Longrightarrow> choice seq i = seq ! i"
  by (simp add: choice_def)

lemma load_image_succeeds:
  assumes "decode_image w p (image_target_shape self) = Inr a"
  shows "\<exists>x vc'. load_image w (self\<lparr>voxelgrid_cache := vc\<rparr>) p = Inr (x, self\<lparr>voxelgrid_cache := vc'\<rparr>)"
  using assms by (auto simp: load_image_def split: option.splits)

lemma load_voxelgrid_succeeds:
  assumes "decode_voxelgrid w p (voxelgrid_target_shape self) = Inr a"
  shows "\<exists>x vc'. load_voxelgrid w (self\<lparr>voxelgrid_cache := vc\<rparr>) p = Inr (x, self\<lparr>voxelgrid_cache := vc'\<rparr>)"
  using assms by (auto simp: load_voxelgrid_def split: option.splits)

lemma batch_loop_can_yield:
  assumes sel: "input_type self = ''image'' \<and> p \<in> set jp
                  \<and> decode_image w p (image_target_shape self) = Inr a
                \<or> input_type self = ''voxelgrid'' \<and> p \<in> set pp
                  \<and> decode_voxelgrid w p (voxelgrid_target_shape self) = Inr a"
    and q: "q \<in> set qs"
    and entry: "map_of (qrcodes_dictionary self) q = Some (t, jp, pp)"
  shows "\<exists>ds xs' ys' self'.
           batch_loop w n qs (self\<lparr>voxelgrid_cache := vc\<rparr>) xs ys ds = Yielded ((xs', ys'), self', [])"
proof (induction "nat (n - int (length xs))" arbitrary: xs ys vc)
  case 0
  then have "\<not> int (length xs) < n" by simp
  then have "batch_loop w n qs (self\<lparr>voxelgrid_cache := vc\<rparr>) xs ys []
               = Yielded ((xs, ys), self\<lparr>voxelgrid_cache := vc\<rparr>, [])"
    by (simp add: batch_loop.simps)
  then show ?case by blast
next
  case (Suc k)
  then have lt: "int (length xs) < n" by simp
  from q obtain i where i: "i < length qs" "qs ! i = q" by (auto simp: in_set_conv_nth)
  then have ci: "choice qs i = q" and ne: "qs \<noteq> []" by (auto simp: choice_index)
  let ?s = "self\<lparr>voxelgrid_cache := vc\<rparr>"
  have e: "map_of (qrcodes_dictionary ?s) (choice qs i) = Some (t, jp, pp)"
    using entry ci by simp
  from sel obtain j x vc' where
    step: "\<And>ds. batch_loop w n qs ?s xs ys (i # j # ds)
             = batch_loop w n qs (self\<lparr>voxelgrid_cache := vc'\<rparr>) (xs @ [x]) (ys @ [t]) ds"
  proof
    assume img: "input_type self = ''image'' \<and> p \<in> set jp
                  \<and> decode_image w p (image_target_shape self) = Inr a"
    then obtain j where j: "j < length jp" "jp ! j = p" by (auto simp: in_set_conv_nth)
    then have cj: "choice jp j = p" and jne: "jp \<noteq> []" by (auto simp: choice_index)
    from img load_image_succeeds [of w p self a vc] obtain x vc' where
      ld: "load_image w ?s p = Inr (x, self\<lparr>voxelgrid_cache := vc'\<rparr>)" by blast
    have it: "input_type ?s = ''image''" using img by simp
    have "batch_loop w n qs ?s xs ys (i # j # ds)
             = batch_loop w n qs (self\<lparr>voxelgrid_cache := vc'\<rparr>) (xs @ [x]) (ys @ [t]) ds" for ds
      by (rule batch_loop_step_image [OF lt ne e it jne]) (simp add: cj ld)
    then show ?thesis by (rule that)
  next
    assume vox: "input_type self = ''voxelgrid'' \<and> p \<in> set pp
                  \<and> decode_voxelgrid w p (voxelgrid_target_shape self) = Inr a"
    then obtain j where j: "j < length pp" "pp ! j = p" by (auto simp: in_set_conv_nth)
    then have cj: "choice pp j = p" and jne: "pp \<noteq> []" by (auto simp: choice_index)
    from vox load_voxelgrid_succeeds [of w p self a vc] obtain x vc' where
      ld: "load_voxelgrid w ?s p = Inr (x, self\<lparr>voxelgrid_cache := vc'\<rparr>)" by blast
    have it: "input_type ?s = ''voxelgrid''" using vox by simp
    have "batch_loop w n qs ?s xs ys (i # j # ds)
             = batch_loop w n qs (self\<lparr>voxelgrid_cache := vc'\<rparr>) (xs @ [x]) (ys @ [t]) ds" for ds
      by (rule batch_loop_step_voxelgrid [OF lt ne e it jne]) (simp add: cj ld)
    then show ?thesis by (rule that)
  qed
  from Suc.hyps(2) have "k = nat (n - int (length (xs @ [x])))" by simp
  from Suc.hyps(1) [OF this] obtain ds xs' ys' self' where
    "batch_loop w n qs (self\<lparr>voxelgrid_cache := vc'\<rparr>) (xs @ [x]) (ys @ [t]) ds
       = Yielded ((xs', ys'), self', [])"
    by blast
  with step [of ds] show ?case by metis
qed

text \<open>
  X1. A batch the generator yields for a size \<open>n \<ge> 0\<close> has exactly \<open>n\<close> input rows and
  as many target rows.
\<close>

theorem generate_batch_size:
  assumes "generate w self n qs ds = Yielded ((xs, ys), self', ds')" and "0 \<le> n"
  shows "int (length xs) = n \<and> length ys = length xs"
  using assms by (rule generate_rows_count)

theorem generate_batch_size_witness:
  "(\<exists>self'. generate example_world (example_index ''image'') 2 None [0, 0, 0, 0]
         = Yielded (([NDArray [1, 2, 3] [0, 0, 0, 0, 0, 0], NDArray [1, 2, 3] [0, 0, 0, 0, 0, 0]],
                     [[JNum 150, JNum 45], [JNum 150, JNum 45]]), self', []))
   \<and> (0 :: int) \<le> 2
   \<and> int (length [NDArray [1, 2, 3] [0, 0, 0, 0, 0, 0], NDArray [1, 2, 3] [0, 0, 0, 0, 0, 0]]) = 2
   \<and> length [[JNum 150, JNum 45], [JNum 150, JNum 45]]
       = length [NDArray [1, 2, 3] [0, 0, 0, 0, 0, 0], NDArray [1, 2, 3] [0, 0, 0, 0, 0, 0]]"
proof -
  let ?img = "NDArray [1, 2, 3] [0, 0, 0, 0, 0, 0]"
  have g: "\<exists>self'. generate example_world (example_index ''image'') 2 None [0, 0, 0, 0]
         = Yielded (([?img, ?img], [[JNum 150, JNum 45], [JNum 150, JNum 45]]), self', [])"
    by (simp add: generate_def batch_loop.simps choice_def example_index_def load_image_def
        example_world_def blank_image_def eval_nat_numeral)
  then obtain s where "generate example_world (example_index ''image'') 2 None [0, 0, 0, 0]
         = Yielded (([?img, ?img], [[JNum 150, JNum 45], [JNum 150, JNum 45]]), s, [])"
    by blast
  from generate_batch_size [OF this] g show ?thesis by simp
qed

text \<open>
  X2. With the \<open>image\<close> or the \<open>voxelgrid\<close> selector, when the subset holds a subject with a
  dictionary entry one of whose files of that modality decodes, there is a finite sequence of
  random draws on which the generator yields a batch of the requested size \<open>n \<ge> 0\<close>.
\<close>

theorem generate_can_yield:
  assumes "input_type self = ''image'' \<and> p \<in> set jp
             \<and> decode_image w p (image_target_shape self) = Inr a
           \<or> input_type self = ''voxelgrid'' \<and> p \<in> set pp
             \<and> decode_voxelgrid w p (voxelgrid_target_shape self) = Inr a"
    and "q \<in> set qs"
    and "map_of (qrcodes_dictionary self) q = Some (t, jp, pp)"
    and "0 \<le> n"
  shows "\<exists>ds xs ys self'. generate w self n (Some qs) ds = Yielded ((xs, ys), self', [])
           \<and> int (length xs) = n \<and> length ys = length xs"
proof -
  from batch_loop_can_yield [OF assms(1-3), where n = n and vc = "voxelgrid_cache self"
      and xs = "[]" and ys = "[]"]
  obtain ds xs ys self' where y: "generate w self n (Some qs) ds = Yielded ((xs, ys), self', [])"
    by (auto simp: generate_def)
  from generate_rows_count [OF y assms(4)] y show ?thesis by blast
qed

theorem generate_can_yield_witness:
  "input_type (example_index ''voxelgrid'') = ''voxelgrid''
   \<and> ''data/storage/person/ABC123/measurements/1.pcd''
       \<in> set [''data/storage/person/ABC123/measurements/1.pcd'',
               ''data/storage/person/ABC123/measurements/2.pcd'']
   \<and> decode_voxelgrid example_world ''data/storage/person/ABC123/measurements/1.pcd''
        (voxelgrid_target_shape (example_index ''voxelgrid'')) = Inr (NDArray [2, 1, 1] [0, 0])
   \<and> JStr ''ABC123'' \<in> set [JStr ''XYZ789'', JStr ''ABC123'']
   \<and> map_of (qrcodes_dictionary (example_index ''voxelgrid'')) (JStr ''ABC123'')
       = Some ([JNum 150, JNum 45],
               [''data/storage/person/ABC123/measurements/1.jpg''],
               [''data/storage/person/ABC123/measurements/1.pcd'',
                ''data/storage/person/ABC123/measurements/2.pcd''])
   \<and> (0 :: int) \<le> 3
   \<and> (\<exists>ds xs ys self'.
         generate example_world (example_index ''voxelgrid'') 3
           (Some [JStr ''XYZ789'', JStr ''ABC123'']) ds = Yielded ((xs, ys), self', [])
         \<and> int (length xs) = 3 \<and> length ys = length xs)"
proof -
  let ?p = "''data/storage/person/ABC123/measurements/1.pcd''"
  let ?g = "example_index ''voxelgrid''"
  have a: "input_type ?g = ''voxelgrid''" by (simp add: example_index_def)
  have b: "?p \<in> set [?p, ''data/storage/person/ABC123/measurements/2.pcd'']" by simp
  have c: "decode_voxelgrid example_world ?p (voxelgrid_target_shape ?g) = Inr (NDArray [2, 1, 1] [0, 0])"
    by (simp add: example_world_def example_index_def blank_voxelgrid_def eval_nat_numeral)
  have d: "JStr ''ABC123'' \<in> set [JStr ''XYZ789'', JStr ''ABC123'']" by simp
  have e: "map_of (qrcodes_dictionary ?g) (JStr ''ABC123'')
       = Some ([JNum 150, JNum 45],
               [''data/storage/person/ABC123/measurements/1.jpg''],
               [?p, ''data/storage/person/ABC123/measurements/2.pcd''])"
    by (simp add: example_index_def)
  have f: "(0 :: int) \<le> 3" by simp
  from a b c have sel: "input_type ?g = ''image'' \<and> ?p \<in> set [''data/storage/person/ABC123/measurements/1.jpg'']
             \<and> decode_image example_world ?p (image_target_shape ?g) = Inr (NDArray [2, 1, 1] [0, 0])
           \<or> input_type ?g = ''voxelgrid'' \<and> ?p \<in> set [?p, ''data/storage/person/ABC123/measurements/2.pcd'']
             \<and> decode_voxelgrid example_world ?p (voxelgrid_target_shape ?g) = Inr (NDArray [2, 1, 1] [0, 0])"
    by blast
  from generate_can_yield [OF sel d e f] a b c d e f show ?thesis by blast
qed

text \<open>
  X3. After a successful call of the voxel-grid loader the path is cached: a second call on
  the same path returns the same array and leaves the index as it is, even if the file can
  no longer be decoded.
\<close>

theorem load_voxelgrid_second_call:
  assumes "load_voxelgrid w self pcd_path = Inr (a, self')"
  shows "voxelgrid_cache self' pcd_path = Some a
     \<and> load_voxelgrid w' self' pcd_path = Inr (a, self')"
  using assms by (auto simp: load_voxelgrid_def split: option.splits sum.splits)

theorem load_voxelgrid_second_call_witness:
  "load_voxelgrid example_world (example_index ''voxelgrid'')
       ''data/storage/person/ABC123/measurements/1.pcd''
     = Inr (NDArray [2, 1, 1] [0, 0],
            (example_index ''voxelgrid'')
              \<lparr>voxelgrid_cache := [''data/storage/person/ABC123/measurements/1.pcd'' \<mapsto>
                                     NDArray [2, 1, 1] [0, 0]]\<rparr>)
   \<and> decode_voxelgrid (example_world\<lparr>decode_voxelgrid := \<lambda>path target. Inl (External path)\<rparr>)
        ''data/storage/person/ABC123/measurements/1.pcd'' [2, 1, 1]
     = Inl (External ''data/storage/person/ABC123/measurements/1.pcd'')
   \<and> load_voxelgrid (example_world\<lparr>decode_voxelgrid := \<lambda>path target. Inl (External path)\<rparr>)
       ((example_index ''voxelgrid'')
              \<lparr>voxelgrid_cache := [''data/storage/person/ABC123/measurements/1.pcd'' \<mapsto>
                                     NDArray [2, 1, 1] [0, 0]]\<rparr>)
       ''data/storage/person/ABC123/measurements/1.pcd''
     = Inr (NDArray [2, 1, 1] [0, 0],
            (example_index ''voxelgrid'')
              \<lparr>voxelgrid_cache := [''data/storage/person/ABC123/measurements/1.pcd'' \<mapsto>
                                     NDArray [2, 1, 1] [0, 0]]\<rparr>)"
proof -
  let ?p = "''data/storage/person/ABC123/measurements/1.pcd''"
  let ?v = "NDArray [2, 1, 1] [0, 0]"
  let ?g = "example_index ''voxelgrid''"
  let ?w' = "example_world\<lparr>decode_voxelgrid := \<lambda>path target. Inl (External path)\<rparr>"
  have first: "load_voxelgrid example_world ?g ?p = Inr (?v, ?g\<lparr>voxelgrid_cache := [?p \<mapsto> ?v]\<rparr>)"
    by (simp add: load_voxelgrid_def example_index_def example_world_def blank_voxelgrid_def
        eval_nat_numeral)
  have gone: "decode_voxelgrid ?w' ?p [2, 1, 1] = Inl (External ?p)" by simp
  from load_voxelgrid_second_call [OF first, of ?w'] first gone show ?thesis by blast
qed

end
